theory Spec2Isabelle
  imports Main
begin

section \<open>JavaScript string helpers\<close>

text \<open>
  Strings are lists of characters. Only ASCII white space and ASCII letters are
  treated specially by \<open>trim\<close> and \<open>toLowerCase\<close>; the file names and converter
  outputs the handlers compare against (\<open>ppt\<close>, \<open>pptx\<close>, line feeds) are ASCII.
\<close>

definition is_ws :: "char \<Rightarrow> bool" where
  "is_ws c = (c \<in> set [CHR '' '', CHR 0x09, CHR 0x0A, CHR 0x0B, CHR 0x0C, CHR 0x0D])"

text \<open>\<^verbatim>\<open>String.prototype.trim\<close>: white space is removed at both ends.\<close>

definition trim :: "string \<Rightarrow> string" where
  "trim s = rev (dropWhile is_ws (rev (dropWhile is_ws s)))"

text \<open>\<^verbatim>\<open>s.split(c)\<close> for a one-character separator; the result is never empty.\<close>

fun split_on :: "char \<Rightarrow> string \<Rightarrow> string list" where
  "split_on c [] = [[]]"
| "split_on c (x # xs) =
     (if x = c then [] # split_on c xs
      else (case split_on c xs of [] \<Rightarrow> [[x]] | y # ys \<Rightarrow> (x # y) # ys))"

definition to_lower_char :: "char \<Rightarrow> char" where
  "to_lower_char c =
     (case map_of (zip ''ABCDEFGHIJKLMNOPQRSTUVWXYZ'' ''abcdefghijklmnopqrstuvwxyz'') c of
        Some d \<Rightarrow> d | None \<Rightarrow> c)"

definition toLowerCase :: "string \<Rightarrow> string" where
  "toLowerCase s = map to_lower_char s"

text \<open>Template-literal rendering of a non-negative integer (\<^verbatim>\<open>`${n}`\<close>).\<close>

function show_nat :: "nat \<Rightarrow> string" where
  "show_nat n =
     (if n < 10 then [''0123456789'' ! n]
      else show_nat (n div 10) @ [''0123456789'' ! (n mod 10)])"
  by pat_completeness auto
termination
  by (relation "measure id") auto

declare show_nat.simps [simp del]

definition show_int :: "int \<Rightarrow> string" where
  "show_int i = (if i < 0 then CHR ''-'' # show_nat (nat (- i)) else show_nat (nat i))"

text \<open>\<^verbatim>\<open>n.toString(36)\<close> for a non-negative integer, and \<^verbatim>\<open>s.slice(-k)\<close>.\<close>

function to_base36 :: "nat \<Rightarrow> string" where
  "to_base36 n =
     (if n < 36 then [''0123456789abcdefghijklmnopqrstuvwxyz'' ! n]
      else to_base36 (n div 36) @ [''0123456789abcdefghijklmnopqrstuvwxyz'' ! (n mod 36)])"
  by pat_completeness auto
termination
  by (relation "measure id") auto

declare to_base36.simps [simp del]

definition slice_last :: "nat \<Rightarrow> string \<Rightarrow> string" where
  "slice_last k s = drop (length s - k) s"

text \<open>JavaScript truthiness of a form field or optional string: \<^verbatim>\<open>null\<close> and \<^verbatim>\<open>''\<close> are falsy.\<close>

definition falsy :: "string option \<Rightarrow> bool" where
  "falsy v = (case v of None \<Rightarrow> True | Some s \<Rightarrow> s = [])"

section \<open>Data model\<close>

text \<open>The uploaded \<^verbatim>\<open>File\<close>: name, size in bytes, MIME type, content.\<close>

record upload_file =
  fl_name :: string
  fl_size :: nat
  fl_type :: string
  fl_bytes :: string

text \<open>
  The multipart form as \<^verbatim>\<open>formData.get\<close> sees it: a field that was not sent is
  \<^verbatim>\<open>null\<close>. A request whose body \<^verbatim>\<open>request.formData()\<close> cannot read is
  \<open>Unparseable\<close>.
\<close>

record form_data =
  form_file :: "upload_file option"
  form_title :: "string option"
  form_description :: "string option"
  form_category :: "string option"
  form_subcategory :: "string option"
  form_tags :: "string option"
  form_previews :: "string option"
  form_thumbnails :: "string option"

datatype request = Unparseable string | Form form_data

text \<open>
  What \<^verbatim>\<open>JSON.parse\<close> yields at the types the handlers use. \<^verbatim>\<open>JSON.parse\<close>
  itself belongs to the platform; it is a parameter of the environment below,
  with \<open>None\<close> for a thrown \<^verbatim>\<open>SyntaxError\<close>. The values are typed as the
  handlers declare or use them: an array of data-URL strings (or something
  that is not an array), the converter's object with its three fields, each of
  which may be missing, and the classifier's object; \<^verbatim>\<open>null\<close> is kept where the
  handlers would throw or branch on it.
\<close>

datatype parsed_array = NotArray | Arr "string list"

record conv_result =
  previews :: "string list option"
  thumbnails :: "string list option"
  cr_page_count :: "int option"

datatype conv_json = ConvNull | Conv conv_result

record metadata =
  meta_title :: string
  meta_slug :: string
  meta_description :: string
  meta_category :: string
  meta_subcategory :: string
  meta_tags :: "string list option"

datatype meta_json = MetaNull | Meta metadata

text \<open>Rows of the tables \<^verbatim>\<open>ppt_files\<close> and \<^verbatim>\<open>ppt_previews\<close>.\<close>

record file_row =
  row_id :: "string option"
  row_title :: string
  row_slug :: "string option"
  row_description :: "string option"
  row_category :: "string option"
  row_subcategory :: "string option"
  row_tags :: "string list option"
  file_name :: string
  file_size :: nat
  file_type :: string
  page_count :: int
  r2_file_key :: "string option"
  r2_thumbnail_key :: "string option"

record preview_row =
  ppt_id :: string
  page_number :: nat
  preview_url :: string
  thumbnail_url :: string

text \<open>The outcome of a child process: it could not be started, or it closed
  with an exit code (\<^verbatim>\<open>null\<close> when killed by a signal), stdout and stderr.\<close>

datatype proc_outcome = SpawnError string | Exited "int option" string string

text \<open>The outcome of the \<^verbatim>\<open>fetch\<close> to the classification endpoint: it rejects,
  answers with a non-2xx status and a body, or answers 2xx with the message
  content found at \<^verbatim>\<open>choices[0].message.content\<close> (absent or empty: \<open>None\<close>).\<close>

datatype fetch_outcome = FetchRejected string | NotOk string | Ok "string option"

text \<open>Every error the handlers throw or catch, one constructor per \<^verbatim>\<open>throw\<close>
  or \<^verbatim>\<open>reject\<close> site of the source.\<close>

datatype exn =
    FileNotUploaded
  | FileTooLarge nat
  | TitleCategoryRequired
  | BadConversion
  | ParseFailed string string
  | ExitedWithCode "int option" string
  | StartFailed string
  | ScriptFailed string "int option" string
  | SpawnFailed string
  | SyntaxError string
  | TypeError
  | InvalidState
  | EnvMissing string
  | NoPreviewPaths
  | ApiKeyMissing
  | ApiRequestFailed string
  | ApiNoContent
  | DatabaseError string
  | FilesInsertFailed string
  | PreviewsInsertFailed string
  | PostgrestError string
  | IOError string

text \<open>Body of a \<^verbatim>\<open>PutObjectCommand\<close>: the \<^verbatim>\<open>Body\<close> field may be left out.\<close>

datatype body = NoBody | Body string

text \<open>The calls a handler issues to its collaborators (file system, child
  processes, object store, database, classifier), in the order issued.\<close>

datatype call =
    Mkdtemp string
  | Mkdir string
  | WriteFile string string
  | Rm string
  | Spawn string "string list"
  | Fetch string string
  | Put string body string
  | InsertFile file_row
  | InsertPreview preview_row
  | InsertPreviews "preview_row list"
  | UpdateFile string string string

text \<open>Events of the progress stream: \<^verbatim>\<open>{ status, message, slug? }\<close>.\<close>

datatype status = Info | Processing | Error | Done

datatype message =
    Validated
  | TempDirCreated string
  | FileSaved
  | Converting
  | Converted nat
  | UploadingOriginal
  | OriginalUploaded
  | UploadingImages
  | Uploaded string string
  | AllImagesUploaded
  | WritingDatabase
  | DatabaseWritten
  | AllDone
  | Thrown exn

datatype stream_event = Event status message "string option"

text \<open>JSON responses, one constructor per shape the handlers build.\<close>

datatype payload =
    SuccessFalse string "exn option"
  | ErrorOnly string
  | ErrorMessage string string
  | ErrorDetails string exn
  | RequestFailed string
  | Skipped string string
  | DirectSuccess file_row string
  | ProcessSuccess string string string "string list" metadata
  | EventStream

record response =
  http_status :: nat
  payload :: payload

section \<open>The world and the environment\<close>

text \<open>
  The world is everything a request can change: the log of calls issued, the
  workspace directories that exist, the object store (key and stored bytes,
  latest put first), the two tables, and the progress stream's controller (the
  events enqueued for the client and whether the stream was closed).
\<close>

record world =
  calls :: "call list"
  dirs :: "string list"
  blobs :: "(string \<times> string) list"
  ppt_files :: "file_row list"
  ppt_previews :: "preview_row list"
  stream_queue :: "stream_event list"
  stream_closed :: bool

text \<open>
  The environment fixes what the collaborators and the platform answer:
  \<open>rejects\<close> decides, from the calls issued so far and the call at hand, whether a
  collaborator call fails and with which message; the other fields are the
  clock, generated identifiers, process outcomes, file reads, image conversion,
  \<^verbatim>\<open>JSON.parse\<close>, the configuration read from \<^verbatim>\<open>process.env\<close>, and the \<^verbatim>\<open>path\<close> and
  \<^verbatim>\<open>slugify\<close> library functions.
\<close>

record env =
  now :: nat
  uuid :: string
  db_new_id :: string
  rejects :: "call list \<Rightarrow> call \<Rightarrow> string option"
  tmpdir :: string
  mkdtemp_path :: "string \<Rightarrow> string"
  spawn_res :: "string \<Rightarrow> string list \<Rightarrow> proc_outcome"
  read_file :: "string \<Rightarrow> string option"
  sharp_thumbnail :: "string \<Rightarrow> string option"
  sharp_webp :: "nat \<Rightarrow> string \<Rightarrow> string option"
  parse_array :: "string \<Rightarrow> parsed_array option"
  parse_conv :: "string \<Rightarrow> conv_json option"
  parse_meta :: "string \<Rightarrow> meta_json option"
  fetch_res :: "string \<Rightarrow> string \<Rightarrow> fetch_outcome"
  api_key :: "string option"
  r2_configured :: bool
  supabase_configured :: bool
  bucket :: "string option"
  public_url :: string
  path_join :: "string \<Rightarrow> string \<Rightarrow> string"
  path_basename :: "string \<Rightarrow> string"
  path_extname :: "string \<Rightarrow> string"
  slugify :: "string \<Rightarrow> string"
  format_mb :: "nat \<Rightarrow> string"

section \<open>Effects\<close>

text \<open>An asynchronous step either throws (\<open>Inl\<close>) or returns (\<open>Inr\<close>), and
  leaves a world behind in both cases.\<close>

type_synonym 'a io = "world \<Rightarrow> (exn + 'a) \<times> world"

definition ret :: "'a \<Rightarrow> 'a io" where
  "ret x w = (Inr x, w)"

definition throw :: "exn \<Rightarrow> 'a io" where
  "throw e w = (Inl e, w)"

definition bnd :: "'a io \<Rightarrow> ('a \<Rightarrow> 'b io) \<Rightarrow> 'b io" where
  "bnd m f w = (case m w of (Inl e, w') \<Rightarrow> (Inl e, w') | (Inr x, w') \<Rightarrow> f x w')"

definition seq :: "unit io \<Rightarrow> 'a io \<Rightarrow> 'a io" where
  "seq m k = bnd m (\<lambda>_. k)"

text \<open>\<^verbatim>\<open>Promise.all\<close> of two steps that were both started: both run, and the
  first rejection (in argument order) is the result.\<close>

definition both :: "'a io \<Rightarrow> 'b io \<Rightarrow> ('a \<times> 'b) io" where
  "both m1 m2 w =
     (case m1 w of (r1, w1) \<Rightarrow>
        (case m2 w1 of (r2, w2) \<Rightarrow>
           ((case r1 of Inl e \<Rightarrow> Inl e
             | Inr x \<Rightarrow> (case r2 of Inl e \<Rightarrow> Inl e | Inr y \<Rightarrow> Inr (x, y))), w2)))"

text \<open>What a call that succeeds does to the stores. A put without a body
  stores an empty object under the key.\<close>

fun body_bytes :: "body \<Rightarrow> string" where
  "body_bytes NoBody = []"
| "body_bytes (Body b) = b"

definition attach_keys :: "string \<Rightarrow> string \<Rightarrow> string \<Rightarrow> file_row \<Rightarrow> file_row" where
  "attach_keys i k t r =
     (if row_id r = Some i then r\<lparr>r2_file_key := Some k, r2_thumbnail_key := Some t\<rparr> else r)"

text \<open>A row inserted without an id gets the id the database generates.\<close>

definition assign_id :: "env \<Rightarrow> file_row \<Rightarrow> file_row" where
  "assign_id env r = (case row_id r of None \<Rightarrow> r\<lparr>row_id := Some (db_new_id env)\<rparr> | Some i \<Rightarrow> r)"

fun effect :: "env \<Rightarrow> call \<Rightarrow> world \<Rightarrow> world" where
  "effect env (Mkdtemp p) w = w\<lparr>dirs := p # dirs w\<rparr>"
| "effect env (Rm p) w = w\<lparr>dirs := removeAll p (dirs w)\<rparr>"
| "effect env (Put k b t) w = w\<lparr>blobs := (k, body_bytes b) # blobs w\<rparr>"
| "effect env (InsertFile r) w = w\<lparr>ppt_files := ppt_files w @ [assign_id env r]\<rparr>"
| "effect env (InsertPreview r) w = w\<lparr>ppt_previews := ppt_previews w @ [r]\<rparr>"
| "effect env (InsertPreviews rs) w = w\<lparr>ppt_previews := ppt_previews w @ rs\<rparr>"
| "effect env (UpdateFile i k t) w = w\<lparr>ppt_files := map (attach_keys i k t) (ppt_files w)\<rparr>"
| "effect env (Mkdir p) w = w"
| "effect env (WriteFile p b) w = w"
| "effect env (Spawn s args) w = w"
| "effect env (Fetch u b) w = w"

definition record_call :: "call \<Rightarrow> world \<Rightarrow> world" where
  "record_call c w = w\<lparr>calls := calls w @ [c]\<rparr>"

text \<open>A call to the file system or the object store: it is logged, and it
  either rejects (the promise throws at the \<^verbatim>\<open>await\<close>) or takes effect.\<close>

definition issue :: "env \<Rightarrow> call \<Rightarrow> unit io" where
  "issue env c w =
     (case rejects env (calls w) c of
        Some m \<Rightarrow> (Inl (IOError m), record_call c w)
      | None \<Rightarrow> (Inr (), effect env c (record_call c w)))"

text \<open>A call to the database client: it never throws; it resolves to
  \<^verbatim>\<open>{ data, error }\<close>, and the caller decides what to do with \<^verbatim>\<open>error\<close>.\<close>

definition supabase :: "env \<Rightarrow> call \<Rightarrow> string option io" where
  "supabase env c w =
     (case rejects env (calls w) c of
        Some m \<Rightarrow> (Inr (Some m), record_call c w)
      | None \<Rightarrow> (Inr None, effect env c (record_call c w)))"

text \<open>\<^verbatim>\<open>fs.mkdtemp(path.join(os.tmpdir(), prefix))\<close> resolves to the created path.\<close>

definition workspace_path :: "env \<Rightarrow> string \<Rightarrow> string" where
  "workspace_path env prefix = mkdtemp_path env (path_join env (tmpdir env) prefix)"

definition fs_mkdtemp :: "env \<Rightarrow> string \<Rightarrow> string io" where
  "fs_mkdtemp env prefix =
     bnd (issue env (Mkdtemp (workspace_path env prefix))) (\<lambda>_. ret (workspace_path env prefix))"

text \<open>\<^verbatim>\<open>fs.rm(dir, { recursive: true, force: true })\<close>: the directory and its
  content are gone afterwards, and a path that does not exist is not an error.
  The removal itself is taken to succeed; what the handlers do when it fails
  (they log the failure and go on) is not modelled.\<close>

definition fs_rm :: "string \<Rightarrow> world \<Rightarrow> world" where
  "fs_rm d w = (record_call (Rm d) w)\<lparr>dirs := removeAll d (dirs w)\<rparr>"

definition fs_readFile :: "env \<Rightarrow> string \<Rightarrow> string io" where
  "fs_readFile env p =
     (case read_file env p of None \<Rightarrow> throw (IOError p) | Some b \<Rightarrow> ret b)"

text \<open>The stream controller: \<^verbatim>\<open>enqueue\<close> and \<^verbatim>\<open>close\<close> throw a \<^verbatim>\<open>TypeError\<close> once
  the stream is closed (WHATWG Streams), and nothing is enqueued then.\<close>

definition sendEvent :: "stream_event \<Rightarrow> unit io" where
  "sendEvent ev w =
     (if stream_closed w then (Inl InvalidState, w)
      else (Inr (), w\<lparr>stream_queue := stream_queue w @ [ev]\<rparr>))"

definition close :: "unit io" where
  "close w =
     (if stream_closed w then (Inl InvalidState, w)
      else (Inr (), w\<lparr>stream_closed := True\<rparr>))"

section \<open>Converter and classifier adapters\<close>

text \<open>\<^verbatim>\<open>runPythonConverter\<close> (streamed pipeline): on exit code 0 the last line of
  the trimmed stdout is parsed as JSON.\<close>

fun settle_converter :: "env \<Rightarrow> proc_outcome \<Rightarrow> exn + conv_json" where
  "settle_converter env (SpawnError m) = Inl (StartFailed m)"
| "settle_converter env (Exited code out err) =
     (if code = Some 0 then
        (case parse_conv env (last (split_on (CHR 0x0A) (trim out))) of
           None \<Rightarrow> Inl (ParseFailed out err)
         | Some r \<Rightarrow> Inr r)
      else Inl (ExitedWithCode code err))"

definition runPythonConverter :: "env \<Rightarrow> string \<Rightarrow> string \<Rightarrow> conv_json io" where
  "runPythonConverter env inputPath outputPath w =
     (settle_converter env (spawn_res env ''./convert.py'' [inputPath, outputPath]),
      record_call (Spawn ''./convert.py'' [inputPath, outputPath]) w)"

text \<open>\<^verbatim>\<open>runPythonScript\<close> (AI-assisted pipeline): on exit code 0 the whole stdout
  is the result.\<close>

fun settle_script :: "string \<Rightarrow> proc_outcome \<Rightarrow> exn + string" where
  "settle_script scriptPath (SpawnError m) = Inl (SpawnFailed m)"
| "settle_script scriptPath (Exited code out err) =
     (if code \<noteq> Some 0 then Inl (ScriptFailed scriptPath code err) else Inr out)"

definition runPythonScript :: "env \<Rightarrow> string \<Rightarrow> string list \<Rightarrow> string io" where
  "runPythonScript env scriptPath args w =
     (settle_script scriptPath (spawn_res env scriptPath args),
      record_call (Spawn scriptPath args) w)"

text \<open>\<^verbatim>\<open>getAiMetadata\<close>: the prompt carries the file name and the first 3000
  characters of the text.\<close>

definition getAiMetadata :: "env \<Rightarrow> string \<Rightarrow> string \<Rightarrow> meta_json io" where
  "getAiMetadata env text filename w =
     (case api_key env of
        None \<Rightarrow> (Inl ApiKeyMissing, w)
      | Some k \<Rightarrow>
          (if k = [] then (Inl ApiKeyMissing, w)
           else
             (let w' = record_call (Fetch filename (take 3000 text)) w
              in case fetch_res env filename (take 3000 text) of
                   FetchRejected m \<Rightarrow> (Inl (IOError m), w')
                 | NotOk b \<Rightarrow> (Inl (ApiRequestFailed b), w')
                 | Ok None \<Rightarrow> (Inl ApiNoContent, w')
                 | Ok (Some content) \<Rightarrow>
                     (if content = [] then (Inl ApiNoContent, w')
                      else (case parse_meta env content of
                              None \<Rightarrow> (Inl (SyntaxError content), w')
                            | Some m \<Rightarrow> (Inr m, w'))))))"

section \<open>Storage keys\<close>

text \<open>The three key templates of the handlers, with the directory under
  \<^verbatim>\<open>ppt-files/\<close> as a parameter.\<close>

definition original_key :: "string \<Rightarrow> string \<Rightarrow> string" where
  "original_key root name = ''ppt-files/'' @ root @ ''/original/'' @ name"

definition page_key :: "string \<Rightarrow> nat \<Rightarrow> string \<Rightarrow> string" where
  "page_key root n ext = ''ppt-files/'' @ root @ ''/previews/page-'' @ show_nat n @ ''.'' @ ext"

definition page_thumb_key :: "string \<Rightarrow> nat \<Rightarrow> string \<Rightarrow> string" where
  "page_thumb_key root n ext =
     ''ppt-files/'' @ root @ ''/previews/page-'' @ show_nat n @ ''-thumb.'' @ ext"

definition named_key :: "string \<Rightarrow> string \<Rightarrow> string" where
  "named_key root filename = ''ppt-files/'' @ root @ ''/previews/'' @ filename"

definition respond :: "nat \<Rightarrow> payload \<Rightarrow> response" where
  "respond st p = \<lparr>http_status = st, payload = p\<rparr>"

definition maxSize :: nat where
  "maxSize = 100 * 1024 * 1024"

section \<open>Direct upload (\<^verbatim>\<open>route.ts\<close>)\<close>

text \<open>\<^verbatim>\<open>dataUrl.split(',')[1]\<close>: the part after the first comma, \<^verbatim>\<open>undefined\<close> when
  there is no comma. The base64 text stands for the bytes it encodes.\<close>

definition data_url_payload :: "string \<Rightarrow> string option" where
  "data_url_payload u = (case split_on (CHR '','') u of a # b # rest \<Rightarrow> Some b | _ \<Rightarrow> None)"

text \<open>The \<^verbatim>\<open>for\<close> loop over the previews: two puts and one row per page. The
  result of the row insert is not looked at.\<close>

fun direct_pages :: "env \<Rightarrow> string \<Rightarrow> string \<Rightarrow> string list \<Rightarrow> nat \<Rightarrow> string list \<Rightarrow> unit io" where
  "direct_pages env timestamp pptId thumbs i [] = ret ()"
| "direct_pages env timestamp pptId thumbs i (p # ps) =
     (let previewKey = page_key timestamp (i + 1) ''jpg'';
          thumbnailKey = page_thumb_key timestamp (i + 1) ''jpg''
      in case data_url_payload p of
           None \<Rightarrow> throw TypeError
         | Some pb \<Rightarrow>
             seq (issue env (Put previewKey (Body pb) ''image/jpeg''))
               (if i < length thumbs then
                  (case data_url_payload (thumbs ! i) of
                     None \<Rightarrow> throw TypeError
                   | Some tb \<Rightarrow>
                       seq (issue env (Put thumbnailKey (Body tb) ''image/jpeg''))
                         (bnd (supabase env (InsertPreview
                                 \<lparr>ppt_id = pptId, page_number = i + 1,
                                  preview_url = previewKey, thumbnail_url = thumbnailKey\<rparr>))
                            (\<lambda>ignored. direct_pages env timestamp pptId thumbs (Suc i) ps)))
                else throw TypeError))"

definition direct_row :: "form_data \<Rightarrow> upload_file \<Rightarrow> string \<Rightarrow> string \<Rightarrow> string \<Rightarrow> nat \<Rightarrow> file_row" where
  "direct_row f fl title fileType pptKey pageCount =
     \<lparr>row_id = None, row_title = title, row_slug = None, row_description = None,
      row_category = form_category f, row_subcategory = form_subcategory f, row_tags = None,
      file_name = fl_name fl, file_size = fl_size fl,
      file_type = (if fileType = [] then ''pptx'' else fileType),
      page_count = int pageCount, r2_file_key = Some pptKey, r2_thumbnail_key = None\<rparr>"

definition direct_persist ::
  "env \<Rightarrow> form_data \<Rightarrow> upload_file \<Rightarrow> string \<Rightarrow> string \<Rightarrow> string list \<Rightarrow> string list \<Rightarrow> response io" where
  "direct_persist env f fl title fileType ps ts =
     (let timestamp = show_nat (now env);
          fileName = timestamp @ ''-'' @ fl_name fl;
          pptKey = original_key timestamp (fl_name fl);
          row = direct_row f fl title fileType pptKey (length ps)
      in bnd (supabase env (InsertFile row))
           (\<lambda>pptError. case pptError of
              Some m \<Rightarrow> seq (issue env (Put pptKey NoBody [])) (throw (DatabaseError m))
            | None \<Rightarrow>
                seq (direct_pages env timestamp (db_new_id env) ts 0 ps)
                  (ret (respond 200
                     (DirectSuccess (assign_id env row) (public_url env @ ''/'' @ fileName))))))"

definition direct_upload :: "env \<Rightarrow> form_data \<Rightarrow> upload_file \<Rightarrow> string \<Rightarrow> string \<Rightarrow> response io" where
  "direct_upload env f fl title fileType =
     seq (issue env (Put (original_key (show_nat (now env)) (fl_name fl))
                        (Body (fl_bytes fl)) (fl_type fl)))
       (case (form_previews f, form_thumbnails f) of
          (Some previewsRaw, Some thumbnailsRaw) \<Rightarrow>
            (if previewsRaw = [] \<or> thumbnailsRaw = []
             then ret (respond 400 (ErrorOnly ''Missing previews or thumbnails data''))
             else (case parse_array env previewsRaw of
                     None \<Rightarrow> throw (SyntaxError previewsRaw)
                   | Some pv \<Rightarrow>
                       (case parse_array env thumbnailsRaw of
                          None \<Rightarrow> throw (SyntaxError thumbnailsRaw)
                        | Some tv \<Rightarrow>
                            (case (pv, tv) of
                               (Arr ps, Arr ts) \<Rightarrow> direct_persist env f fl title fileType ps ts
                             | _ \<Rightarrow> ret (respond 400
                                        (ErrorOnly ''Invalid previews or thumbnails data''))))))
        | _ \<Rightarrow> ret (respond 400 (ErrorOnly ''Missing previews or thumbnails data'')))"

definition POST_direct :: "env \<Rightarrow> request \<Rightarrow> world \<Rightarrow> response \<times> world" where
  "POST_direct env req w =
     (case req of
        Unparseable m \<Rightarrow>
          (respond 500 (SuccessFalse ''Failed to upload file'' (Some (IOError m))), w)
      | Form f \<Rightarrow>
          (case form_file f of
             None \<Rightarrow> (respond 400 (SuccessFalse ''No file provided'' None), w)
           | Some fl \<Rightarrow>
               (case form_title f of
                  None \<Rightarrow> (respond 400 (SuccessFalse ''Title is required'' None), w)
                | Some title \<Rightarrow>
                    if title = [] then (respond 400 (SuccessFalse ''Title is required'' None), w)
                    else
                      (let fileType = toLowerCase (last (split_on (CHR ''.'') (fl_name fl)))
                       in if fileType = [] \<or> fileType \<notin> set [''ppt'', ''pptx'']
                          then (respond 400
                                  (SuccessFalse ''Only PPT/PPTX files are allowed'' None), w)
                          else (case direct_upload env f fl title fileType w of
                                  (Inl e, w') \<Rightarrow>
                                    (respond 500
                                       (SuccessFalse ''Failed to upload file'' (Some e)), w')
                                | (Inr r, w') \<Rightarrow> (r, w'))))))"

section \<open>Streamed conversion (\<^verbatim>\<open>upload\<close> route)\<close>

text \<open>The check made on the converter's result before anything is uploaded.\<close>

fun checked_conversion :: "conv_json \<Rightarrow> (string list \<times> string list) option" where
  "checked_conversion ConvNull = None"
| "checked_conversion (Conv c) =
     (case (previews c, thumbnails c) of
        (Some ps, Some ts) \<Rightarrow> if length ps \<noteq> length ts then None else Some (ps, ts)
      | _ \<Rightarrow> None)"

text \<open>The callback mapped over the previews: read both files, put both
  objects, report, and return the page's row.\<close>

definition upload_page :: "env \<Rightarrow> string \<Rightarrow> nat \<Rightarrow> string \<Rightarrow> string \<Rightarrow> preview_row io" where
  "upload_page env pptId index previewPath thumbnailPath =
     (let previewFilename = path_basename env previewPath;
          thumbnailFilename = path_basename env thumbnailPath;
          previewKey = named_key pptId previewFilename;
          thumbnailKey = named_key pptId thumbnailFilename
      in bnd (fs_readFile env previewPath) (\<lambda>previewContent.
         bnd (fs_readFile env thumbnailPath) (\<lambda>thumbnailContent.
         bnd (both (issue env (Put previewKey (Body previewContent) ''image/jpeg''))
                   (issue env (Put thumbnailKey (Body thumbnailContent) ''image/jpeg'')))
           (\<lambda>sent.
         seq (sendEvent (Event Info (Uploaded previewFilename thumbnailFilename) None))
           (ret \<lparr>ppt_id = pptId, page_number = index + 1,
                 preview_url = previewKey, thumbnail_url = thumbnailKey\<rparr>)))))"

text \<open>
  \<^verbatim>\<open>Promise.all(previews.map(...))\<close> starts a callback for every page. The model
  runs the callbacks to completion one after the other in page order, each
  whether or not an earlier one rejected, and settles with the rows in page
  order or with the first rejection in page order.
\<close>

fun upload_and_record :: "env \<Rightarrow> string \<Rightarrow> nat \<Rightarrow> (string \<times> string) list \<Rightarrow> preview_row list io" where
  "upload_and_record env pptId index [] w = (Inr [], w)"
| "upload_and_record env pptId index (pt # rest) w =
     (case both (upload_page env pptId index (fst pt) (snd pt))
                (upload_and_record env pptId (Suc index) rest) w of
        (Inl e, w') \<Rightarrow> (Inl e, w')
      | (Inr rr, w') \<Rightarrow> (Inr (fst rr # snd rr), w'))"

definition stream_row ::
  "env \<Rightarrow> form_data \<Rightarrow> upload_file \<Rightarrow> string \<Rightarrow> string \<Rightarrow> preview_row list \<Rightarrow> file_row" where
  "stream_row env f fl title slug previewRecords =
     \<lparr>row_id = Some (uuid env), row_title = title, row_slug = Some slug,
      row_description = form_description f, row_category = form_category f,
      row_subcategory = form_subcategory f,
      row_tags = Some (map trim (split_on (CHR '','')
                   (case form_tags f of None \<Rightarrow> [] | Some t \<Rightarrow> t))),
      file_name = fl_name fl, file_size = fl_size fl,
      file_type = drop 1 (path_extname env (fl_name fl)),
      page_count = int (length previewRecords),
      r2_file_key = Some (original_key (uuid env) (fl_name fl)),
      r2_thumbnail_key = (case previewRecords of [] \<Rightarrow> None | r # rs \<Rightarrow> Some (thumbnail_url r))\<rparr>"

text \<open>Step 7: insert the file row, then the preview rows, then send \<^verbatim>\<open>done\<close>.\<close>

definition stream_persist ::
  "env \<Rightarrow> form_data \<Rightarrow> upload_file \<Rightarrow> string \<Rightarrow> string \<Rightarrow> preview_row list \<Rightarrow> unit io" where
  "stream_persist env f fl title slug previewRecords =
     bnd (supabase env (InsertFile (stream_row env f fl title slug previewRecords)))
       (\<lambda>fileInsertError. case fileInsertError of
          Some m \<Rightarrow> throw (FilesInsertFailed m)
        | None \<Rightarrow>
            bnd (supabase env (InsertPreviews previewRecords))
              (\<lambda>previewsInsertError. case previewsInsertError of
                 Some m \<Rightarrow> throw (PreviewsInsertFailed m)
               | None \<Rightarrow>
                   seq (sendEvent (Event Info DatabaseWritten None))
                     (sendEvent (Event Done AllDone (Some slug)))))"

text \<open>Steps 4 to 6: upload the original and the page images, then persist.\<close>

definition stream_store ::
  "env \<Rightarrow> form_data \<Rightarrow> upload_file \<Rightarrow> string \<Rightarrow> string list \<Rightarrow> string list \<Rightarrow> unit io" where
  "stream_store env f fl title ps ts =
     (let pptId = uuid env;
          slug = slugify env title @ ''-'' @ show_nat (now env);
          originalFileKey = original_key pptId (fl_name fl)
      in seq (sendEvent (Event Processing UploadingOriginal None))
        (seq (issue env (Put originalFileKey (Body (fl_bytes fl)) (fl_type fl)))
        (seq (sendEvent (Event Info OriginalUploaded None))
        (seq (sendEvent (Event Processing UploadingImages None))
        (bnd (upload_and_record env pptId 0 (zip ps ts)) (\<lambda>previewRecords.
         seq (sendEvent (Event Info AllImagesUploaded None))
        (seq (sendEvent (Event Processing WritingDatabase None))
          (stream_persist env f fl title slug previewRecords))))))))"

text \<open>Steps 1 to 3, once the workspace exists: stage the file, run the
  converter, check its result.\<close>

definition stream_convert :: "env \<Rightarrow> form_data \<Rightarrow> upload_file \<Rightarrow> string \<Rightarrow> string \<Rightarrow> unit io" where
  "stream_convert env f fl title tempDir =
     (let tempFilePath = path_join env tempDir (fl_name fl);
          scriptOutputDir = path_join env tempDir ''output''
      in seq (sendEvent (Event Info (TempDirCreated (path_basename env tempDir)) None))
        (seq (issue env (Mkdir scriptOutputDir))
        (seq (issue env (WriteFile tempFilePath (fl_bytes fl)))
        (seq (sendEvent (Event Info FileSaved None))
        (seq (sendEvent (Event Processing Converting None))
        (bnd (runPythonConverter env tempFilePath scriptOutputDir) (\<lambda>conversionResult.
           case checked_conversion conversionResult of
             None \<Rightarrow> throw BadConversion
           | Some pt \<Rightarrow>
               seq (sendEvent (Event Info (Converted (length (fst pt))) None))
                 (stream_store env f fl title (fst pt) (snd pt)))))))))"

text \<open>The validation at the head of the \<^verbatim>\<open>try\<close> block.\<close>

definition stream_validate :: "form_data \<Rightarrow> exn + (upload_file \<times> string)" where
  "stream_validate f =
     (case form_file f of
        None \<Rightarrow> Inl FileNotUploaded
      | Some fl \<Rightarrow>
          if fl_size fl > maxSize then Inl (FileTooLarge (fl_size fl))
          else if falsy (form_title f) \<or> falsy (form_category f) then Inl TitleCategoryRequired
          else (case form_title f of None \<Rightarrow> Inl TitleCategoryRequired
                | Some title \<Rightarrow> Inr (fl, title)))"

text \<open>The \<^verbatim>\<open>try\<close> block: its outcome, the value of \<^verbatim>\<open>tempDir\<close> when it is left,
  and the world.\<close>

definition stream_try :: "env \<Rightarrow> form_data \<Rightarrow> world \<Rightarrow> (exn + unit) \<times> string option \<times> world" where
  "stream_try env f w =
     (case stream_validate f of
        Inl e \<Rightarrow> (Inl e, None, w)
      | Inr ft \<Rightarrow>
          (case seq (sendEvent (Event Info Validated None)) (fs_mkdtemp env ''ppt-upload-'') w of
             (Inl e, w1) \<Rightarrow> (Inl e, None, w1)
           | (Inr tempDir, w1) \<Rightarrow>
               (case stream_convert env f (fst ft) (snd ft) tempDir w1 of
                  (r, w2) \<Rightarrow> (r, Some tempDir, w2))))"

text \<open>The callback passed to \<^verbatim>\<open>createStreamResponse\<close>: \<^verbatim>\<open>try\<close>, a \<^verbatim>\<open>catch\<close> that
  rethrows, and a \<^verbatim>\<open>finally\<close> that removes the workspace and closes the stream.\<close>

definition stream_callback :: "env \<Rightarrow> form_data \<Rightarrow> unit io" where
  "stream_callback env f w =
     (case stream_try env f w of
        (r, tempDir, w1) \<Rightarrow>
          (let w2 = (case tempDir of None \<Rightarrow> w1 | Some d \<Rightarrow> fs_rm d w1)
           in case close w2 of
                (Inl e, w3) \<Rightarrow> (Inl e, w3)
              | (Inr u, w3) \<Rightarrow> (r, w3)))"

text \<open>\<^verbatim>\<open>createStreamResponse\<close>: a new stream whose \<^verbatim>\<open>start\<close> runs the callback
  and, when the callback throws, sends an \<^verbatim>\<open>error\<close> event and closes.\<close>

definition createStreamResponse :: "unit io \<Rightarrow> world \<Rightarrow> response \<times> world" where
  "createStreamResponse cb w =
     (respond 200 EventStream,
      case cb (w\<lparr>stream_queue := [], stream_closed := False\<rparr>) of
        (Inr u, w1) \<Rightarrow> w1
      | (Inl err, w1) \<Rightarrow> snd (seq (sendEvent (Event Error (Thrown err) None)) close w1))"

definition POST_stream :: "env \<Rightarrow> request \<Rightarrow> world \<Rightarrow> response \<times> world" where
  "POST_stream env req w =
     (case req of
        Unparseable m \<Rightarrow> (respond 500 (ErrorMessage ''Upload failed'' m), w)
      | Form f \<Rightarrow> createStreamResponse (stream_callback env f) w)"

section \<open>AI-assisted conversion (\<^verbatim>\<open>process-ppt\<close> route)\<close>

text \<open>Step 9, the \<^verbatim>\<open>for\<close> loop over the previews: convert and put the page
  image, convert and put the page thumbnail, push the row.\<close>

fun process_pages ::
  "env \<Rightarrow> string \<Rightarrow> string list option \<Rightarrow> nat \<Rightarrow> string list \<Rightarrow> preview_row list \<Rightarrow> preview_row list io" where
  "process_pages env pptId thumbs i [] previewRecords = ret previewRecords"
| "process_pages env pptId thumbs i (previewPath # rest) previewRecords =
     bnd (fs_readFile env previewPath) (\<lambda>previewBuffer.
       case sharp_webp env 90 previewBuffer of
         None \<Rightarrow> throw (IOError previewPath)
       | Some previewWebpBuffer \<Rightarrow>
           seq (issue env (Put (page_key pptId (i + 1) ''webp'')
                             (Body previewWebpBuffer) ''image/webp''))
             (case thumbs of
                None \<Rightarrow> throw TypeError
              | Some ts \<Rightarrow>
                  if i < length ts then
                    bnd (fs_readFile env (ts ! i)) (\<lambda>thumbnailBuffer.
                      case sharp_webp env 85 thumbnailBuffer of
                        None \<Rightarrow> throw (IOError (ts ! i))
                      | Some thumbnailWebpBuffer \<Rightarrow>
                          seq (issue env (Put (page_thumb_key pptId (i + 1) ''webp'')
                                            (Body thumbnailWebpBuffer) ''image/webp''))
                            (process_pages env pptId thumbs (Suc i) rest
                               (previewRecords @
                                [\<lparr>ppt_id = pptId, page_number = i + 1,
                                  preview_url = page_key pptId (i + 1) ''webp'',
                                  thumbnail_url = page_thumb_key pptId (i + 1) ''webp''\<rparr>])))
                  else throw TypeError))"

definition process_row :: "env \<Rightarrow> upload_file \<Rightarrow> metadata \<Rightarrow> int \<Rightarrow> file_row" where
  "process_row env fl m pageCount =
     \<lparr>row_id = None, row_title = meta_title m,
      row_slug = Some (meta_slug m @ ''-'' @ slice_last 6 (to_base36 (now env))),
      row_description = Some (meta_description m), row_category = Some (meta_category m),
      row_subcategory = Some (meta_subcategory m),
      row_tags = Some (case meta_tags m of None \<Rightarrow> [] | Some t \<Rightarrow> t),
      file_name = fl_name fl, file_size = fl_size fl,
      file_type = drop 1 (path_extname env (fl_name fl)),
      page_count = pageCount, r2_file_key = None, r2_thumbnail_key = None\<rparr>"

text \<open>Steps 10 and 11: update the file row with the two keys (the result of
  the update is not looked at), remove the workspace, answer.\<close>

definition process_finalize ::
  "env \<Rightarrow> string \<Rightarrow> string \<Rightarrow> string \<Rightarrow> string \<Rightarrow> preview_row list \<Rightarrow> metadata \<Rightarrow> response io" where
  "process_finalize env tempDir pptId originalFileKey thumbnailKey previewRecords m =
     bnd (supabase env (UpdateFile pptId originalFileKey thumbnailKey))
       (\<lambda>ignored w.
          (Inr (respond 200
             (ProcessSuccess pptId originalFileKey thumbnailKey
                (map preview_url previewRecords) m)),
           fs_rm tempDir w))"

text \<open>Steps 7 to 9: upload the original, the representative thumbnail and
  the pages, and insert the preview rows.\<close>

definition process_assets ::
  "env \<Rightarrow> upload_file \<Rightarrow> string \<Rightarrow> string \<Rightarrow> string list \<Rightarrow> string list option \<Rightarrow> metadata \<Rightarrow> response io" where
  "process_assets env fl tempDir firstPreviewPath ps thumbs m =
     (let pptId = db_new_id env;
          originalFileKey = original_key pptId (fl_name fl);
          thumbnailKey = named_key pptId ''thumbnail.webp''
      in bnd (fs_readFile env (path_join env tempDir (fl_name fl))) (\<lambda>bytes.
         seq (issue env (Put originalFileKey (Body bytes) (fl_type fl)))
           (case sharp_thumbnail env firstPreviewPath of
              None \<Rightarrow> throw (IOError firstPreviewPath)
            | Some thumbnailBuffer \<Rightarrow>
                seq (issue env (Put thumbnailKey (Body thumbnailBuffer) ''image/webp''))
                  (bnd (process_pages env pptId thumbs 0 ps []) (\<lambda>previewRecords.
                   bnd (supabase env (InsertPreviews previewRecords))
                     (\<lambda>previewInsertError. case previewInsertError of
                        Some e \<Rightarrow> throw (PostgrestError e)
                      | None \<Rightarrow>
                          process_finalize env tempDir pptId originalFileKey thumbnailKey
                            previewRecords m))))))"

text \<open>Step 6: insert the file row to get its id.\<close>

definition process_persist ::
  "env \<Rightarrow> upload_file \<Rightarrow> string \<Rightarrow> int \<Rightarrow> string \<Rightarrow> string list \<Rightarrow> string list option \<Rightarrow> metadata \<Rightarrow> response io" where
  "process_persist env fl tempDir pageCount firstPreviewPath ps thumbs m =
     bnd (supabase env (InsertFile (process_row env fl m pageCount)))
       (\<lambda>insertError. case insertError of
          Some e \<Rightarrow> throw (PostgrestError e)
        | None \<Rightarrow> process_assets env fl tempDir firstPreviewPath ps thumbs m)"

text \<open>Steps 4 and 5: extract the text and classify it.\<close>

definition process_classify ::
  "env \<Rightarrow> upload_file \<Rightarrow> string \<Rightarrow> int \<Rightarrow> string \<Rightarrow> string list \<Rightarrow> string list option \<Rightarrow> response io" where
  "process_classify env fl tempDir pageCount firstPreviewPath ps thumbs =
     bnd (runPythonScript env ''extract_text.py'' [path_join env tempDir (fl_name fl)])
       (\<lambda>extractedText.
     bnd (getAiMetadata env extractedText (fl_name fl)) (\<lambda>mj.
       case mj of
         MetaNull \<Rightarrow> throw TypeError
       | Meta m \<Rightarrow> process_persist env fl tempDir pageCount firstPreviewPath ps thumbs m))"

text \<open>\<^verbatim>\<open>previewData.page_count || 0\<close>.\<close>

definition pageCount_of :: "conv_result \<Rightarrow> int" where
  "pageCount_of c = (case cr_page_count c of None \<Rightarrow> 0 | Some n \<Rightarrow> n)"

text \<open>What the converter's stdout parses to in each pipeline, given the
  workspace: the streamed pipeline parses the last line, the AI-assisted
  pipeline the whole trimmed stdout.\<close>

definition stream_conversion :: "env \<Rightarrow> upload_file \<Rightarrow> string \<Rightarrow> exn + conv_json" where
  "stream_conversion env fl tempDir =
     settle_converter env (spawn_res env ''./convert.py''
       [path_join env tempDir (fl_name fl), path_join env tempDir ''output''])"

definition process_conversion :: "env \<Rightarrow> upload_file \<Rightarrow> string \<Rightarrow> (exn + conv_json option)" where
  "process_conversion env fl tempDir =
     (case settle_script ''convert.py'' (spawn_res env ''convert.py''
             [path_join env tempDir (fl_name fl), path_join env tempDir ''previews'']) of
        Inl e \<Rightarrow> Inl e
      | Inr out \<Rightarrow> Inr (parse_conv env (trim out)))"

text \<open>Steps 1 to 3, inside the inner \<^verbatim>\<open>try\<close> once the workspace exists: the
  clients, the staged file, the converter, the page-count gate.\<close>

definition process_try :: "env \<Rightarrow> upload_file \<Rightarrow> string \<Rightarrow> response io" where
  "process_try env fl tempDir =
     (let tempFilePath = path_join env tempDir (fl_name fl);
          previewOutputDir = path_join env tempDir ''previews''
      in if \<not> r2_configured env then throw (EnvMissing ''R2'')
         else if \<not> supabase_configured env then throw (EnvMissing ''Supabase'')
         else if falsy (bucket env) then throw (EnvMissing ''R2_BUCKET_NAME'')
         else
           seq (issue env (WriteFile tempFilePath (fl_bytes fl)))
          (seq (issue env (Mkdir previewOutputDir))
          (bnd (runPythonScript env ''convert.py'' [tempFilePath, previewOutputDir])
             (\<lambda>convertOutputJson.
                case parse_conv env (trim convertOutputJson) of
                  None \<Rightarrow> throw (SyntaxError (trim convertOutputJson))
                | Some ConvNull \<Rightarrow> throw TypeError
                | Some (Conv previewData) \<Rightarrow>
                    if pageCount_of previewData < 10 then
                      (\<lambda>w. (Inr (respond 200
                                (Skipped (''File skipped: Page count ('' @
                                            show_int (pageCount_of previewData) @
                                            '') is less than 10.'')
                                         (fl_name fl))),
                             fs_rm tempDir w))
                    else
                      (case previews previewData of
                         None \<Rightarrow> throw NoPreviewPaths
                       | Some [] \<Rightarrow> throw NoPreviewPaths
                       | Some (firstPreviewPath # others) \<Rightarrow>
                           process_classify env fl tempDir (pageCount_of previewData)
                             firstPreviewPath (firstPreviewPath # others)
                             (thumbnails previewData))))))"

definition POST_process :: "env \<Rightarrow> request \<Rightarrow> world \<Rightarrow> response \<times> world" where
  "POST_process env req w =
     (case req of
        Unparseable m \<Rightarrow> (respond 500 (RequestFailed m), w)
      | Form f \<Rightarrow>
          (case form_file f of
             None \<Rightarrow> (respond 400 (ErrorOnly ''No file provided''), w)
           | Some fl \<Rightarrow>
               if fl_size fl > maxSize
               then (respond 413 (ErrorMessage ''File too large'' (format_mb env (fl_size fl))), w)
               else
                 (case fs_mkdtemp env ''ppt-process-'' w of
                    (Inl e, w1) \<Rightarrow> (respond 500 (ErrorDetails ''Processing failed'' e), w1)
                  | (Inr tempDir, w1) \<Rightarrow>
                      (case process_try env fl tempDir w1 of
                         (Inl e, w2) \<Rightarrow>
                           (respond 500 (ErrorDetails ''Processing failed'' e), fs_rm tempDir w2)
                       | (Inr r, w2) \<Rightarrow> (r, fs_rm tempDir w2)))))"

section \<open>Observations on a run\<close>

text \<open>The calls a handler added to the log.\<close>

definition new_calls :: "world \<Rightarrow> world \<Rightarrow> call list" where
  "new_calls w w' = drop (length (calls w)) (calls w')"


fun is_insert_file :: "call \<Rightarrow> bool" where
  "is_insert_file (InsertFile r) = True"
| "is_insert_file c = False"



text \<open>The storage keys each handler builds: what a key put by the AI-assisted,
  the direct and the streamed pipeline looks like.\<close>

definition process_key :: "env \<Rightarrow> upload_file \<Rightarrow> string \<Rightarrow> bool" where
  "process_key env fl k =
     (k = original_key (db_new_id env) (fl_name fl) \<or>
      k = named_key (db_new_id env) ''thumbnail.webp'' \<or>
      (\<exists>n. 1 \<le> n \<and> (k = page_key (db_new_id env) n ''webp'' \<or>
                       k = page_thumb_key (db_new_id env) n ''webp'')))"


definition stream_key :: "env \<Rightarrow> upload_file \<Rightarrow> string \<Rightarrow> bool" where
  "stream_key env fl k =
     (k = original_key (uuid env) (fl_name fl) \<or>
      (\<exists>p. k = named_key (uuid env) (path_basename env p)))"




text \<open>The pages the streamed pipeline works with: the converter's result
  after the handler's check.\<close>

definition stream_pages :: "env \<Rightarrow> upload_file \<Rightarrow> string \<Rightarrow> (string list \<times> string list) option" where
  "stream_pages env fl tempDir =
     (case stream_conversion env fl tempDir of
        Inl e \<Rightarrow> None
      | Inr cj \<Rightarrow> checked_conversion cj)"

text \<open>What each handler may issue between creating and removing its
  workspace (the direct handler: at all), and with which arguments.\<close>

fun process_call :: "env \<Rightarrow> upload_file \<Rightarrow> string \<Rightarrow> call \<Rightarrow> bool" where
  "process_call env fl d (Put k b t) = process_key env fl k"
| "process_call env fl d (InsertFile row) =
     (row_id row = None \<and> r2_file_key row = None \<and> r2_thumbnail_key row = None \<and>
      (case process_conversion env fl d of
         Inr (Some (Conv cr)) \<Rightarrow> page_count row = pageCount_of cr
       | _ \<Rightarrow> False))"
| "process_call env fl d (UpdateFile i k t) =
     (i = db_new_id env \<and> k = original_key (db_new_id env) (fl_name fl) \<and>
      t = named_key (db_new_id env) ''thumbnail.webp'')"
| "process_call env fl d (Rm p) = (p = d)"
| "process_call env fl d (Mkdtemp p) = False"
| "process_call env fl d (InsertPreview r) = False"
| "process_call env fl d c = True"

fun stream_call :: "env \<Rightarrow> upload_file \<Rightarrow> string \<Rightarrow> call \<Rightarrow> bool" where
  "stream_call env fl d (Put k b t) = stream_key env fl k"
| "stream_call env fl d (InsertFile row) =
     (row_id row = Some (uuid env) \<and>
      r2_file_key row = Some (original_key (uuid env) (fl_name fl)) \<and>
      (case stream_pages env fl d of
         Some pt \<Rightarrow> length (fst pt) = length (snd pt) \<and> page_count row = int (length (fst pt))
       | None \<Rightarrow> False))"
| "stream_call env fl d (InsertPreviews rs) = True"
| "stream_call env fl d (Mkdir p) = True"
| "stream_call env fl d (WriteFile p b) = True"
| "stream_call env fl d (Spawn s a) = True"
| "stream_call env fl d c = False"


text \<open>A step's contribution to the log: every run of \<open>m\<close> appends some calls
  \<open>ext\<close>, and \<open>P\<close> holds of the outcome and \<open>ext\<close>. \<open>emits Q m\<close>: every call that \<open>m\<close>
  appends satisfies \<open>Q\<close>.\<close>

definition traces :: "((exn + 'a) \<Rightarrow> call list \<Rightarrow> bool) \<Rightarrow> 'a io \<Rightarrow> bool" where
  "traces P m = (\<forall>w. \<exists>ext. calls (snd (m w)) = calls w @ ext \<and> P (fst (m w)) ext)"

definition emits :: "(call \<Rightarrow> bool) \<Rightarrow> 'a io \<Rightarrow> bool" where
  "emits Q m = traces (\<lambda>r ext. list_all Q ext) m"

section \<open>A sample environment\<close>

text \<open>
  A concrete environment in which every collaborator succeeds. Its
  \<^verbatim>\<open>JSON.parse\<close> is given on the texts that occur in the sample runs only, where
  it agrees with the platform's; every other text is rejected.
\<close>

definition sample_meta :: metadata where
  "sample_meta =
     \<lparr>meta_title = ''Q3 Review'', meta_slug = ''q3-review'', meta_description = ''Quarterly'',
      meta_category = ''Business & Corporate'', meta_subcategory = ''Business reports'',
      meta_tags = None\<rparr>"

definition sample_conv :: conv_result where
  "sample_conv =
     \<lparr>previews = Some [''/out/page-1.jpg'', ''/out/page-2.jpg''],
      thumbnails = Some [''/out/page-1-thumb.jpg'', ''/out/page-2-thumb.jpg''],
      cr_page_count = Some 2\<rparr>"

definition sample_stdout :: string where
  \<open>sample_stdout =
     ''{"previews": ["/out/page-1.jpg", "/out/page-2.jpg"], "thumbnails": ["/out/page-1-thumb.jpg", "/out/page-2-thumb.jpg"], "page_count": 2}''\<close>

definition sample_images :: string where
  \<open>sample_images =
     ''["data:image/jpeg;base64,AAAA"]''\<close>

definition sample_content :: string where
  \<open>sample_content =
     ''{"title": "Q3 Review", "slug": "q3-review", "description": "Quarterly", "category": "Business & Corporate", "subcategory": "Business reports"}''\<close>

definition env0 :: env where
  "env0 =
     \<lparr>now = 1700, uuid = ''u1'', db_new_id = ''42'', rejects = (\<lambda>h c. None),
      tmpdir = ''/tmp'', mkdtemp_path = (\<lambda>p. p @ ''Ab3x9Q''),
      spawn_res = (\<lambda>s args. if s = ''extract_text.py'' then Exited (Some 0) ''Quarterly results'' []
                              else Exited (Some 0) sample_stdout []),
      read_file = (\<lambda>p. Some p), sharp_thumbnail = (\<lambda>p. Some p), sharp_webp = (\<lambda>q b. Some b),
      parse_array = (\<lambda>s. if s = sample_images then Some (Arr [''data:image/jpeg;base64,AAAA''])
                           else None),
      parse_conv = (\<lambda>s. if s = sample_stdout then Some (Conv sample_conv) else None),
      parse_meta = (\<lambda>s. if s = sample_content then Some (Meta sample_meta) else None),
      fetch_res = (\<lambda>f t. Ok (Some sample_content)), api_key = Some ''key'',
      r2_configured = True, supabase_configured = True, bucket = Some ''bucket'',
      public_url = ''https://cdn.example'',
      path_join = (\<lambda>a b. a @ ''/'' @ b),
      path_basename = (\<lambda>p. last (split_on (CHR ''/'') p)),
      path_extname = (\<lambda>p. CHR ''.'' # last (split_on (CHR ''.'') p)),
      slugify = toLowerCase, format_mb = show_nat\<rparr>"

definition w0 :: world where
  "w0 = \<lparr>calls = [], dirs = [], blobs = [], ppt_files = [], ppt_previews = [],
          stream_queue = [], stream_closed = False\<rparr>"

definition file0 :: upload_file where
  "file0 = \<lparr>fl_name = ''deck.pptx'', fl_size = 5, fl_type = ''application/vnd.ms-powerpoint'',
             fl_bytes = ''bytes''\<rparr>"

definition form0 :: form_data where
  "form0 =
     \<lparr>form_file = Some file0, form_title = Some ''deck'', form_description = None,
      form_category = Some ''Business'', form_subcategory = None, form_tags = Some ''a, b'',
      form_previews = Some sample_images, form_thumbnails = Some sample_images\<rparr>"

text \<open>Variants of the sample environment: the file-row insert fails; the
  preview-row insert fails; the converter exits with code 1; the converter
  prints a log line before its JSON line.\<close>

definition env_insert_fails :: env where
  "env_insert_fails =
     env0\<lparr>rejects := (\<lambda>h c. if is_insert_file c then Some ''duplicate key value'' else None)\<rparr>"

fun is_insert_preview :: "call \<Rightarrow> bool" where
  "is_insert_preview (InsertPreview r) = True"
| "is_insert_preview (InsertPreviews rs) = True"
| "is_insert_preview c = False"

definition env_preview_insert_fails :: env where
  "env_preview_insert_fails =
     env0\<lparr>rejects := (\<lambda>h c. if is_insert_preview c then Some ''violates foreign key'' else None)\<rparr>"

definition env_exit1 :: env where
  "env_exit1 = env0\<lparr>spawn_res := (\<lambda>s args. Exited (Some 1) [] ''Traceback'')\<rparr>"

definition logged_stdout :: string where
  "logged_stdout = ''Converting deck.pptx'' @ [CHR 0x0A] @ sample_stdout"

definition env_logs :: env where
  "env_logs = env0\<lparr>spawn_res := (\<lambda>s args. Exited (Some 0) logged_stdout [])\<rparr>"

text \<open>The events that end a progress stream.\<close>

fun is_terminal :: "stream_event \<Rightarrow> bool" where
  "is_terminal (Event st m s) = (st = Error \<or> st = Done)"

text \<open>\<open>streams Q m\<close>: run on an open stream, \<open>m\<close> leaves the stream open and
  enqueues only events that satisfy \<open>Q\<close>.\<close>

fun is_error_event :: "stream_event \<Rightarrow> bool" where
  "is_error_event (Event st m s) = (st = Error)"

definition streams :: "(stream_event \<Rightarrow> bool) \<Rightarrow> 'a io \<Rightarrow> bool" where
  "streams Q m =
     (\<forall>w. \<not> stream_closed w \<longrightarrow>
        \<not> stream_closed (snd (m w)) \<and>
        (\<exists>evs. stream_queue (snd (m w)) = stream_queue w @ evs \<and> list_all Q evs))"

text \<open>The guards at the head of each handler, as conditions on the form.\<close>

definition direct_invalid :: "form_data \<Rightarrow> bool" where
  "direct_invalid f =
     (case form_file f of
        None \<Rightarrow> True
      | Some fl \<Rightarrow> falsy (form_title f) \<or>
          toLowerCase (last (split_on (CHR ''.'') (fl_name fl))) \<notin> set [''ppt'', ''pptx''])"

definition process_invalid :: "form_data \<Rightarrow> bool" where
  "process_invalid f = (case form_file f of None \<Rightarrow> True | Some fl \<Rightarrow> fl_size fl > maxSize)"

definition stream_invalid :: "form_data \<Rightarrow> bool" where
  "stream_invalid f =
     (case form_file f of
        None \<Rightarrow> True
      | Some fl \<Rightarrow> fl_size fl > maxSize \<or> falsy (form_title f) \<or> falsy (form_category f))"

text \<open>Two worlds that differ at most in the state of the progress stream.\<close>

definition same_stores :: "world \<Rightarrow> world \<Rightarrow> bool" where
  "same_stores w w' =
     (calls w' = calls w \<and> dirs w' = dirs w \<and> blobs w' = blobs w \<and>
      ppt_files w' = ppt_files w \<and> ppt_previews w' = ppt_previews w)"

text \<open>A file in Apple Keynote format, for the extension check.\<close>

definition key_form :: form_data where
  "key_form = form0\<lparr>form_file := Some (file0\<lparr>fl_name := ''deck.key''\<rparr>)\<rparr>"

text \<open>Calls that may come before the file-row insert without breaking
  \<open>row_before\<close>, and what a successful answer of the AI-assisted pipeline says
  about the log.\<close>

definition harmless :: "(string \<Rightarrow> bool) \<Rightarrow> call \<Rightarrow> bool" where
  "harmless asset c = (case c of Put k b t \<Rightarrow> \<not> asset k | UpdateFile i k t \<Rightarrow> False | _ \<Rightarrow> True)"


text \<open>A converter result whose sequences and page count do not agree.\<close>

definition mismatch_conv :: conv_result where
  "mismatch_conv =
     \<lparr>previews = Some [''/out/page-1.jpg''],
      thumbnails = Some [''/out/page-1-thumb.jpg'', ''/out/page-2-thumb.jpg''],
      cr_page_count = Some 12\<rparr>"

definition mismatch_stdout :: string where
  \<open>mismatch_stdout =
     ''{"previews": ["/out/page-1.jpg"], "thumbnails": ["/out/page-1-thumb.jpg", "/out/page-2-thumb.jpg"], "page_count": 12}''\<close>

definition env_mismatch :: env where
  "env_mismatch =
     env0\<lparr>spawn_res := (\<lambda>s args. if s = ''extract_text.py''
                                     then Exited (Some 0) ''Quarterly results'' []
                                     else Exited (Some 0) mismatch_stdout []),
          parse_conv := (\<lambda>s. if s = mismatch_stdout then Some (Conv mismatch_conv) else None)\<rparr>"

text \<open>The preview rows of the sample run of the streamed pipeline.\<close>

definition sample_rows :: "preview_row list" where
  "sample_rows =
     [\<lparr>ppt_id = ''u1'', page_number = 1,
        preview_url = ''ppt-files/u1/previews/page-1.jpg'',
        thumbnail_url = ''ppt-files/u1/previews/page-1-thumb.jpg''\<rparr>,
      \<lparr>ppt_id = ''u1'', page_number = 2,
        preview_url = ''ppt-files/u1/previews/page-2.jpg'',
        thumbnail_url = ''ppt-files/u1/previews/page-2-thumb.jpg''\<rparr>]"

section \<open>Reasoning about the log\<close>

lemmas run_defs = ret_def throw_def bnd_def seq_def both_def issue_def supabase_def record_call_def
  fs_mkdtemp_def fs_rm_def fs_readFile_def sendEvent_def close_def
  runPythonConverter_def runPythonScript_def respond_def new_calls_def Let_def

lemma env0_simps:
  "now env0 = 1700" "uuid env0 = ''u1''" "db_new_id env0 = ''42''" "rejects env0 = (\<lambda>h c. None)"
  "tmpdir env0 = ''/tmp''" "mkdtemp_path env0 = (\<lambda>p. p @ ''Ab3x9Q'')"
  "spawn_res env0 = (\<lambda>s args. if s = ''extract_text.py''
                                then Exited (Some 0) ''Quarterly results'' []
                                else Exited (Some 0) sample_stdout [])"
  "read_file env0 = (\<lambda>p. Some p)" "sharp_thumbnail env0 = (\<lambda>p. Some p)"
  "sharp_webp env0 = (\<lambda>q b. Some b)"
  "parse_array env0 = (\<lambda>s. if s = sample_images then Some (Arr [''data:image/jpeg;base64,AAAA''])
                             else None)"
  "parse_conv env0 = (\<lambda>s. if s = sample_stdout then Some (Conv sample_conv) else None)"
  "parse_meta env0 = (\<lambda>s. if s = sample_content then Some (Meta sample_meta) else None)"
  "fetch_res env0 = (\<lambda>f t. Ok (Some sample_content))" "api_key env0 = Some ''key''"
  "r2_configured env0" "supabase_configured env0" "bucket env0 = Some ''bucket''"
  "public_url env0 = ''https://cdn.example''" "path_join env0 = (\<lambda>a b. a @ ''/'' @ b)"
  "path_basename env0 = (\<lambda>p. last (split_on (CHR ''/'') p))"
  "path_extname env0 = (\<lambda>p. CHR ''.'' # last (split_on (CHR ''.'') p))"
  "slugify env0 = toLowerCase" "format_mb env0 = show_nat"
  by (simp_all add: env0_def)

lemma w0_simps:
  "calls w0 = []" "dirs w0 = []" "blobs w0 = []" "ppt_files w0 = []" "ppt_previews w0 = []"
  "stream_queue w0 = []" "stream_closed w0 = False"
  by (simp_all add: w0_def)

lemma file0_simps:
  "fl_name file0 = ''deck.pptx''" "fl_size file0 = 5"
  "fl_type file0 = ''application/vnd.ms-powerpoint''" "fl_bytes file0 = ''bytes''"
  by (simp_all add: file0_def)

lemma form0_simps:
  "form_file form0 = Some file0" "form_title form0 = Some ''deck''" "form_description form0 = None"
  "form_category form0 = Some ''Business''" "form_subcategory form0 = None"
  "form_tags form0 = Some ''a, b''" "form_previews form0 = Some sample_images"
  "form_thumbnails form0 = Some sample_images"
  by (simp_all add: form0_def)

lemma sample_conv_simps:
  "previews sample_conv = Some [''/out/page-1.jpg'', ''/out/page-2.jpg'']"
  "thumbnails sample_conv = Some [''/out/page-1-thumb.jpg'', ''/out/page-2-thumb.jpg'']"
  "cr_page_count sample_conv = Some 2"
  by (simp_all add: sample_conv_def)

lemma show_nat_samples:
  "show_nat 1 = ''1''" "show_nat 2 = ''2''" "show_nat 12 = ''12''" "show_nat 1700 = ''1700''"
  "show_nat (Suc 0) = ''1''" "show_nat (Suc (Suc 0)) = ''2''"
  by (simp_all add: show_nat.simps)

lemma trim_sample_stdout: "trim sample_stdout = sample_stdout"
  by (simp add: trim_def is_ws_def sample_stdout_def)

lemma last_line_sample_stdout: "last (split_on (CHR 0x0A) sample_stdout) = sample_stdout"
  by (simp add: sample_stdout_def)

lemma logged_stdout_simps:
  "trim logged_stdout = logged_stdout"
  "last (split_on (CHR 0x0A) logged_stdout) = sample_stdout"
  "logged_stdout \<noteq> sample_stdout"
  by (simp_all add: trim_def is_ws_def logged_stdout_def sample_stdout_def)

lemma sample_texts_nonempty:
  "sample_images \<noteq> []" "sample_content \<noteq> []" "sample_stdout \<noteq> []"
  by (simp_all add: sample_images_def sample_content_def sample_stdout_def)

lemmas sample_defs = env0_simps w0_simps file0_simps form0_simps sample_conv_simps show_nat_samples
  trim_sample_stdout last_line_sample_stdout logged_stdout_simps sample_texts_nonempty
  key_form_def env_insert_fails_def env_preview_insert_fails_def env_exit1_def env_logs_def

lemmas model_eval = ret_def throw_def bnd_def seq_def both_def issue_def supabase_def record_call_def
  workspace_path_def fs_mkdtemp_def fs_rm_def fs_readFile_def sendEvent_def close_def
  runPythonConverter_def runPythonScript_def getAiMetadata_def original_key_def page_key_def
  page_thumb_key_def named_key_def respond_def maxSize_def data_url_payload_def direct_row_def
  direct_persist_def direct_upload_def POST_direct_def upload_page_def stream_row_def
  stream_persist_def stream_store_def stream_convert_def stream_validate_def stream_try_def stream_callback_def
  createStreamResponse_def POST_stream_def process_row_def process_finalize_def process_assets_def process_persist_def
  process_classify_def pageCount_of_def process_try_def POST_process_def assign_id_def
  attach_keys_def falsy_def toLowerCase_def to_lower_char_def show_int_def
  slice_last_def new_calls_def Let_def

lemma tracesD: "traces P m \<Longrightarrow> \<exists>ext. calls (snd (m w)) = calls w @ ext \<and> P (fst (m w)) ext"
  by (simp add: traces_def)


lemma traces_ret: "P (Inr x) [] \<Longrightarrow> traces P (ret x)"
  by (simp add: traces_def ret_def)

lemma traces_throw: "P (Inl e) [] \<Longrightarrow> traces P (throw e)"
  by (simp add: traces_def throw_def)

lemma calls_effect [simp]: "calls (effect env c w) = calls w"
  by (cases c) simp_all

lemma traces_issue: "(\<And>r. P r [c]) \<Longrightarrow> traces P (issue env c)"
  by (simp add: traces_def issue_def record_call_def split: option.splits)

lemma traces_supabase: "(\<And>r. P r [c]) \<Longrightarrow> traces P (supabase env c)"
  by (simp add: traces_def supabase_def record_call_def split: option.splits)

lemma traces_sendEvent: "(\<And>r. P r []) \<Longrightarrow> traces P (sendEvent ev)"
  by (simp add: traces_def sendEvent_def)

lemma traces_close: "(\<And>r. P r []) \<Longrightarrow> traces P close"
  by (simp add: traces_def close_def)

lemma traces_readFile: "(\<And>r. P r []) \<Longrightarrow> traces P (fs_readFile env p)"
  by (simp add: traces_def fs_readFile_def throw_def ret_def split: option.splits)

lemma traces_converter:
  "(\<And>r. P r [Spawn ''./convert.py'' [i, out]]) \<Longrightarrow> traces P (runPythonConverter env i out)"
  by (simp add: traces_def runPythonConverter_def record_call_def)

lemma traces_script: "(\<And>r. P r [Spawn s args]) \<Longrightarrow> traces P (runPythonScript env s args)"
  by (simp add: traces_def runPythonScript_def record_call_def)

lemma traces_ai:
  "(\<And>r. P r []) \<Longrightarrow> (\<And>r. P r [Fetch n (take 3000 t)]) \<Longrightarrow> traces P (getAiMetadata env t n)"
  by (simp add: traces_def getAiMetadata_def record_call_def Let_def
      split: option.splits fetch_outcome.splits)

lemma traces_rm: "P (Inr r) [Rm d] \<Longrightarrow> traces P (\<lambda>w. (Inr r, fs_rm d w))"
  by (simp add: traces_def fs_rm_def record_call_def)

lemma traces_bnd:
  assumes m: "traces P m" and f: "\<And>x. traces (Q x) (f x)"
    and err: "\<And>e a. P (Inl e) a \<Longrightarrow> R (Inl e) a"
    and ok: "\<And>x a r b. P (Inr x) a \<Longrightarrow> Q x r b \<Longrightarrow> R r (a @ b)"
  shows "traces R (bnd m f)"
  unfolding traces_def
proof
  fix w
  obtain a where a: "calls (snd (m w)) = calls w @ a" "P (fst (m w)) a"
    using tracesD [OF m] by blast
  show "\<exists>ext. calls (snd (bnd m f w)) = calls w @ ext \<and> R (fst (bnd m f w)) ext"
  proof (cases "m w")
    case (Pair r w')
    show ?thesis
    proof (cases r)
      case (Inl e)
      with Pair a err show ?thesis by (auto simp: bnd_def)
    next
      case (Inr x)
      obtain b where b: "calls (snd (f x w')) = calls w' @ b" "Q x (fst (f x w')) b"
        using tracesD [OF f] by blast
      with Pair Inr a ok [of x a "fst (f x w')" b] show ?thesis by (auto simp: bnd_def)
    qed
  qed
qed

lemma traces_seq:
  assumes "traces P m" and "traces Q k"
    and "\<And>e a. P (Inl e) a \<Longrightarrow> R (Inl e) a"
    and "\<And>x a r b. P (Inr x) a \<Longrightarrow> Q r b \<Longrightarrow> R r (a @ b)"
  shows "traces R (seq m k)"
  unfolding seq_def using assms by (rule traces_bnd [where Q = "\<lambda>_. Q"])

lemma emits_traces: "traces (\<lambda>r ext. list_all Q ext) m \<Longrightarrow> emits Q m"
  by (simp add: emits_def)

lemma emits_ret: "emits Q (ret x)"
  by (simp add: emits_def traces_ret)

lemma emits_throw: "emits Q (throw e)"
  by (simp add: emits_def traces_throw)

lemma emits_issue: "Q c \<Longrightarrow> emits Q (issue env c)"
  by (simp add: emits_def traces_issue)

lemma emits_supabase: "Q c \<Longrightarrow> emits Q (supabase env c)"
  by (simp add: emits_def traces_supabase)

lemma emits_sendEvent: "emits Q (sendEvent ev)"
  by (simp add: emits_def traces_sendEvent)

lemma emits_close: "emits Q close"
  by (simp add: emits_def traces_close)

lemma emits_readFile: "emits Q (fs_readFile env p)"
  by (simp add: emits_def traces_readFile)

lemma emits_converter: "Q (Spawn ''./convert.py'' [i, out]) \<Longrightarrow> emits Q (runPythonConverter env i out)"
  by (simp add: emits_def traces_converter)

lemma emits_script: "Q (Spawn s args) \<Longrightarrow> emits Q (runPythonScript env s args)"
  by (simp add: emits_def traces_script)

lemma emits_ai: "Q (Fetch n (take 3000 t)) \<Longrightarrow> emits Q (getAiMetadata env t n)"
  by (simp add: emits_def traces_ai)

lemma emits_rm: "Q (Rm d) \<Longrightarrow> emits Q (\<lambda>w. (Inr r, fs_rm d w))"
  by (simp add: emits_def traces_rm)

lemma emits_bnd: "emits Q m \<Longrightarrow> (\<And>x. emits Q (f x)) \<Longrightarrow> emits Q (bnd m f)"
  unfolding emits_def by (rule traces_bnd [where Q = "\<lambda>x r ext. list_all Q ext"]) auto

lemma emits_seq: "emits Q m \<Longrightarrow> emits Q k \<Longrightarrow> emits Q (seq m k)"
  by (simp add: seq_def emits_bnd)

lemma emits_both: "emits Q m1 \<Longrightarrow> emits Q m2 \<Longrightarrow> emits Q (both m1 m2)"
  unfolding emits_def traces_def
proof
  fix w
  assume 1: "\<forall>w. \<exists>ext. calls (snd (m1 w)) = calls w @ ext \<and> list_all Q ext"
    and 2: "\<forall>w. \<exists>ext. calls (snd (m2 w)) = calls w @ ext \<and> list_all Q ext"
  obtain a where a: "calls (snd (m1 w)) = calls w @ a" "list_all Q a" using 1 by blast
  obtain b where b: "calls (snd (m2 (snd (m1 w)))) = calls (snd (m1 w)) @ b" "list_all Q b"
    using 2 by blast
  have "calls (snd (both m1 m2 w)) = calls w @ (a @ b)"
    using a b by (cases "m1 w"; cases "m2 (snd (m1 w))") (auto simp: both_def)
  with a b show "\<exists>ext. calls (snd (both m1 m2 w)) = calls w @ ext \<and> list_all Q ext"
    by (intro exI [of _ "a @ b"]) simp
qed

lemmas emits_intros = emits_ret emits_throw emits_issue emits_supabase emits_sendEvent emits_close
  emits_readFile emits_converter emits_script emits_ai emits_rm emits_bnd emits_seq emits_both






section \<open>Validation\<close>

lemma direct_invalid_400:
  "direct_invalid f \<Longrightarrow>
     http_status (fst (POST_direct env (Form f) w)) = 400 \<and> snd (POST_direct env (Form f) w) = w"
  by (auto simp: direct_invalid_def POST_direct_def respond_def falsy_def Let_def
      split: option.splits)

lemma process_invalid_4xx:
  "process_invalid f \<Longrightarrow>
     http_status (fst (POST_process env (Form f) w)) =
       (case form_file f of None \<Rightarrow> 400 | Some fl \<Rightarrow> 413) \<and>
     snd (POST_process env (Form f) w) = w"
  by (auto simp: process_invalid_def POST_process_def respond_def split: option.splits)

lemma stream_invalid_no_effects:
  "stream_invalid f \<Longrightarrow>
     fst (POST_stream env (Form f) w) = respond 200 EventStream \<and>
     same_stores w (snd (POST_stream env (Form f) w))"
  by (auto simp: stream_invalid_def POST_stream_def createStreamResponse_def stream_callback_def
        stream_try_def stream_validate_def same_stores_def run_defs split: option.splits)

text \<open>
  C3, as the code has it. A request that fails a handler's own guards is
  answered before anything is done:
  \<^item> direct pipeline (file missing, title missing, extension not \<open>ppt\<close>/\<open>pptx\<close>):
    HTTP 400 and the world is unchanged;
  \<^item> AI-assisted pipeline (file missing: HTTP 400; size over 100 MiB: HTTP 413):
    the world is unchanged;
  \<^item> streamed pipeline (file missing, size over 100 MiB, title or category
    missing): the answer is the event stream (HTTP 200), no call is issued and
    no directory, blob or row changes.
\<close>

theorem validation_failure_has_no_side_effects:
  "(direct_invalid f \<longrightarrow>
      http_status (fst (POST_direct env (Form f) w)) = 400 \<and>
      snd (POST_direct env (Form f) w) = w) \<and>
   (process_invalid f \<longrightarrow>
      http_status (fst (POST_process env (Form f) w)) =
        (case form_file f of None \<Rightarrow> 400 | Some fl \<Rightarrow> 413) \<and>
      snd (POST_process env (Form f) w) = w) \<and>
   (stream_invalid f \<longrightarrow>
      fst (POST_stream env (Form f) w) = respond 200 EventStream \<and>
      same_stores w (snd (POST_stream env (Form f) w)))"
  using direct_invalid_400 process_invalid_4xx stream_invalid_no_effects by blast

theorem validation_failure_has_no_side_effects_witness:
  "direct_invalid key_form \<and>
   http_status (fst (POST_direct env0 (Form key_form) w0)) = 400 \<and>
   snd (POST_direct env0 (Form key_form) w0) = w0 \<and>
   process_invalid (form0\<lparr>form_file := None\<rparr>) \<and>
   http_status (fst (POST_process env0 (Form (form0\<lparr>form_file := None\<rparr>)) w0)) = 400 \<and>
   snd (POST_process env0 (Form (form0\<lparr>form_file := None\<rparr>)) w0) = w0 \<and>
   stream_invalid (form0\<lparr>form_title := None\<rparr>) \<and>
   same_stores w0 (snd (POST_stream env0 (Form (form0\<lparr>form_title := None\<rparr>)) w0))"
proof -
  have d: "direct_invalid key_form"
    by (simp add: direct_invalid_def sample_defs falsy_def toLowerCase_def to_lower_char_def)
  have p: "process_invalid (form0\<lparr>form_file := None\<rparr>)"
    by (simp add: process_invalid_def sample_defs)
  have s: "stream_invalid (form0\<lparr>form_title := None\<rparr>)"
    by (simp add: stream_invalid_def sample_defs falsy_def maxSize_def)
  show ?thesis
    using d p s
      validation_failure_has_no_side_effects [of key_form env0 w0]
      validation_failure_has_no_side_effects [of "form0\<lparr>form_file := None\<rparr>" env0 w0]
      validation_failure_has_no_side_effects [of "form0\<lparr>form_title := None\<rparr>" env0 w0]
    by (simp add: sample_defs)
qed

text \<open>
  C3 as stated fails: a file named \<open>deck.key\<close>, 5 bytes long, with title and
  category, sent to the AI-assisted pipeline is not answered with HTTP 400, and
  a workspace is created for it; sent to the streamed pipeline, a workspace is
  created as well.
\<close>

theorem key_file_is_staged_counterexample:
  "toLowerCase (last (split_on (CHR ''.'') ''deck.key'')) \<notin> set [''ppt'', ''pptx''] \<and>
   http_status (fst (POST_process env0 (Form key_form) w0)) = 200 \<and>
   Mkdtemp ''/tmp/ppt-process-Ab3x9Q'' \<in> set (calls (snd (POST_process env0 (Form key_form) w0))) \<and>
   http_status (fst (POST_stream env0 (Form key_form) w0)) = 200 \<and>
   Mkdtemp ''/tmp/ppt-upload-Ab3x9Q'' \<in> set (calls (snd (POST_stream env0 (Form key_form) w0)))"
  by (simp add: model_eval sample_defs)

section \<open>The page-count gate\<close>



section \<open>Compensation in the direct pipeline\<close>

text \<open>
  C10. In the direct pipeline, when the file-row insert fails after the
  original was stored, the handler puts the original's key again with no body
  and answers HTTP 500 with \<open>success: false\<close>. No row is written and the key is
  still in the object store; when the second put goes through, the object
  stored under the key is empty and the error reported is the database's.
\<close>

theorem failed_insert_overwrites_original:
  assumes fl: "form_file f = Some fl" and title: "form_title f = Some title" "title \<noteq> []"
    and ext: "fileType = toLowerCase (last (split_on (CHR ''.'') (fl_name fl)))"
             "fileType \<in> set [''ppt'', ''pptx'']"
    and key: "key = original_key (show_nat (now env)) (fl_name fl)"
    and put: "rejects env (calls w) (Put key (Body (fl_bytes fl)) (fl_type fl)) = None"
    and raw: "form_previews f = Some praw" "form_thumbnails f = Some traw"
             "praw \<noteq> []" "traw \<noteq> []"
    and arrays: "parse_array env praw = Some (Arr ps)" "parse_array env traw = Some (Arr ts)"
    and row: "row = direct_row f fl title fileType key (length ps)"
    and ins: "rejects env (calls w @ [Put key (Body (fl_bytes fl)) (fl_type fl)])
                (InsertFile row) = Some m"
  shows "new_calls w (snd (POST_direct env (Form f) w)) =
           [Put key (Body (fl_bytes fl)) (fl_type fl), InsertFile row, Put key NoBody []]
       \<and> http_status (fst (POST_direct env (Form f) w)) = 500
       \<and> (\<exists>e. payload (fst (POST_direct env (Form f) w)) =
                SuccessFalse ''Failed to upload file'' (Some e))
       \<and> key \<in> fst ` set (blobs (snd (POST_direct env (Form f) w)))
       \<and> ppt_files (snd (POST_direct env (Form f) w)) = ppt_files w
       \<and> (rejects env (calls w @ [Put key (Body (fl_bytes fl)) (fl_type fl), InsertFile row])
             (Put key NoBody []) = None \<longrightarrow>
            map_of (blobs (snd (POST_direct env (Form f) w))) key = Some [] \<and>
            payload (fst (POST_direct env (Form f) w)) =
              SuccessFalse ''Failed to upload file'' (Some (DatabaseError m)))"
  using assms
  by (auto simp: POST_direct_def direct_upload_def direct_persist_def run_defs split: option.splits)

theorem failed_insert_overwrites_original_witness:
  "new_calls w0 (snd (POST_direct env_insert_fails (Form form0) w0)) =
     [Put ''ppt-files/1700/original/deck.pptx'' (Body ''bytes'') ''application/vnd.ms-powerpoint'',
      InsertFile (direct_row form0 file0 ''deck'' ''pptx'' ''ppt-files/1700/original/deck.pptx'' 1),
      Put ''ppt-files/1700/original/deck.pptx'' NoBody []]
   \<and> http_status (fst (POST_direct env_insert_fails (Form form0) w0)) = 500
   \<and> payload (fst (POST_direct env_insert_fails (Form form0) w0)) =
       SuccessFalse ''Failed to upload file'' (Some (DatabaseError ''duplicate key value''))
   \<and> map_of (blobs (snd (POST_direct env_insert_fails (Form form0) w0)))
        ''ppt-files/1700/original/deck.pptx'' = Some []
   \<and> ppt_files (snd (POST_direct env_insert_fails (Form form0) w0)) = []"
  using failed_insert_overwrites_original [where f = form0 and fl = file0 and title = "''deck''"
      and fileType = "''pptx''" and key = "''ppt-files/1700/original/deck.pptx''"
      and env = env_insert_fails and w = w0 and praw = sample_images and traw = sample_images
      and ps = "[''data:image/jpeg;base64,AAAA'']" and ts = "[''data:image/jpeg;base64,AAAA'']"
      and row = "direct_row form0 file0 ''deck'' ''pptx'' ''ppt-files/1700/original/deck.pptx'' 1"
      and m = "''duplicate key value''"]
  by (simp add: sample_defs original_key_def toLowerCase_def to_lower_char_def)

section \<open>Defects\<close>

text \<open>Whatever the request and the environment, the streamed handler ends
  with the stream closed and without an \<open>error\<close> event in it.\<close>

lemma stream_effect [simp]:
  "stream_queue (effect env c w) = stream_queue w" "stream_closed (effect env c w) = stream_closed w"
  by (cases c; simp)+

lemma streams_ret: "streams Q (ret x)"
  by (simp add: streams_def ret_def)

lemma streams_throw: "streams Q (throw e)"
  by (simp add: streams_def throw_def)

lemma streams_issue: "streams Q (issue env c)"
  by (simp add: streams_def issue_def record_call_def split: option.splits)

lemma streams_supabase: "streams Q (supabase env c)"
  by (simp add: streams_def supabase_def record_call_def split: option.splits)

lemma streams_readFile: "streams Q (fs_readFile env p)"
  by (simp add: streams_def fs_readFile_def throw_def ret_def split: option.splits)

lemma streams_converter: "streams Q (runPythonConverter env i out)"
  by (simp add: streams_def runPythonConverter_def record_call_def)

lemma streams_sendEvent: "Q ev \<Longrightarrow> streams Q (sendEvent ev)"
  by (simp add: streams_def sendEvent_def)

lemma streams_bnd:
  assumes m: "streams Q m" and f: "\<And>x. streams Q (f x)"
  shows "streams Q (bnd m f)"
  unfolding streams_def
proof (intro allI impI)
  fix w :: world
  assume "op": "\<not> stream_closed w"
  from m "op" obtain a where a: "\<not> stream_closed (snd (m w))"
    "stream_queue (snd (m w)) = stream_queue w @ a" "list_all Q a"
    unfolding streams_def by blast
  show "\<not> stream_closed (snd (bnd m f w)) \<and>
        (\<exists>evs. stream_queue (snd (bnd m f w)) = stream_queue w @ evs \<and> list_all Q evs)"
  proof (cases "m w")
    case (Pair r w')
    show ?thesis
    proof (cases r)
      case (Inl e)
      with Pair a show ?thesis by (auto simp: bnd_def)
    next
      case (Inr x)
      from f [of x] a(1) Pair obtain b where "\<not> stream_closed (snd (f x w'))"
        "stream_queue (snd (f x w')) = stream_queue w' @ b" "list_all Q b"
        unfolding streams_def by fastforce
      with Pair Inr a show ?thesis by (auto simp: bnd_def)
    qed
  qed
qed

lemma streams_seq: "streams Q m \<Longrightarrow> streams Q k \<Longrightarrow> streams Q (seq m k)"
  by (simp add: seq_def streams_bnd)

lemma streams_both:
  assumes 1: "streams Q m1" and 2: "streams Q m2"
  shows "streams Q (both m1 m2)"
  unfolding streams_def
proof (intro allI impI)
  fix w :: world
  assume "op": "\<not> stream_closed w"
  from 1 "op" obtain a where a: "\<not> stream_closed (snd (m1 w))"
    "stream_queue (snd (m1 w)) = stream_queue w @ a" "list_all Q a"
    unfolding streams_def by blast
  from 2 a(1) obtain b where b: "\<not> stream_closed (snd (m2 (snd (m1 w))))"
    "stream_queue (snd (m2 (snd (m1 w)))) = stream_queue (snd (m1 w)) @ b" "list_all Q b"
    unfolding streams_def by blast
  have "snd (both m1 m2 w) = snd (m2 (snd (m1 w)))"
    by (cases "m1 w"; cases "m2 (snd (m1 w))") (auto simp: both_def)
  with a b show "\<not> stream_closed (snd (both m1 m2 w)) \<and>
        (\<exists>evs. stream_queue (snd (both m1 m2 w)) = stream_queue w @ evs \<and> list_all Q evs)"
    by auto
qed

lemmas streams_intros = streams_ret streams_throw streams_issue streams_supabase streams_readFile
  streams_converter streams_sendEvent streams_bnd streams_seq streams_both

lemma streamsD:
  assumes "streams Q m" and "\<not> stream_closed w" and "list_all Q (stream_queue w)"
    and "m w = (r, w')"
  shows "\<not> stream_closed w' \<and> list_all Q (stream_queue w')"
proof -
  from assms(1,2) obtain evs where "\<not> stream_closed (snd (m w))"
    "stream_queue (snd (m w)) = stream_queue w @ evs" "list_all Q evs"
    unfolding streams_def by blast
  with assms(3,4) show ?thesis by simp
qed

lemma streams_upload_page:
  "streams (\<lambda>ev. \<not> is_error_event ev) (upload_page env pid i p t)"
  by (auto simp: upload_page_def Let_def intro!: streams_intros)

lemma streams_upload_and_record:
  "streams (\<lambda>ev. \<not> is_error_event ev) (upload_and_record env pid i pts)"
proof (induction pts arbitrary: i)
  case Nil
  show ?case by (simp add: streams_def)
next
  case (Cons pt pts)
  have b: "streams (\<lambda>ev. \<not> is_error_event ev)
             (both (upload_page env pid i (fst pt) (snd pt)) (upload_and_record env pid (Suc i) pts))"
    using Cons by (intro streams_both streams_upload_page)
  have "snd (upload_and_record env pid i (pt # pts) w) =
        snd (both (upload_page env pid i (fst pt) (snd pt)) (upload_and_record env pid (Suc i) pts) w)"
    for w by (auto split: prod.splits sum.splits)
  with b show ?case unfolding streams_def by simp
qed

lemma streams_stream_convert:
  "streams (\<lambda>ev. \<not> is_error_event ev) (stream_convert env f fl title d)"
  unfolding stream_convert_def stream_store_def stream_persist_def Let_def
  by (auto split: option.splits intro!: streams_intros streams_upload_and_record)

lemma error_event_never_delivered:
  "stream_closed (snd (POST_stream env (Form f) w)) \<and>
   \<not> list_ex is_error_event (stream_queue (snd (POST_stream env (Form f) w)))"
proof -
  define ws where "ws = w\<lparr>stream_queue := [], stream_closed := False\<rparr>"
  obtain r td w1 where tr: "stream_try env f ws = (r, td, w1)"
    by (cases "stream_try env f ws") auto
  have w1: "\<not> stream_closed w1 \<and> list_all (\<lambda>ev. \<not> is_error_event ev) (stream_queue w1)"
  proof (cases "stream_validate f")
    case (Inl e)
    with tr show ?thesis by (auto simp: stream_try_def ws_def)
  next
    case (Inr ft)
    have pre: "streams (\<lambda>ev. \<not> is_error_event ev)
                 (seq (sendEvent (Event Info Validated None)) (fs_mkdtemp env ''ppt-upload-''))"
      by (auto simp: fs_mkdtemp_def intro!: streams_intros)
    obtain r0 w0 where m: "seq (sendEvent (Event Info Validated None)) (fs_mkdtemp env ''ppt-upload-'') ws = (r0, w0)"
      by (cases "seq (sendEvent (Event Info Validated None)) (fs_mkdtemp env ''ppt-upload-'') ws")
    have ws: "\<not> stream_closed ws" "list_all (\<lambda>ev. \<not> is_error_event ev) (stream_queue ws)"
      by (simp_all add: ws_def)
    from streamsD [OF pre ws m]
    have w0: "\<not> stream_closed w0" "list_all (\<lambda>ev. \<not> is_error_event ev) (stream_queue w0)"
      by simp_all
    show ?thesis
    proof (cases r0)
      case (Inl e)
      with tr Inr m w0 show ?thesis by (auto simp: stream_try_def)
    next
      case (Inr d)
      obtain r2 w2 where c: "stream_convert env f (fst ft) (snd ft) d w0 = (r2, w2)"
        by (cases "stream_convert env f (fst ft) (snd ft) d w0")
      from streamsD [OF streams_stream_convert w0 c]
      have "\<not> stream_closed w2 \<and> list_all (\<lambda>ev. \<not> is_error_event ev) (stream_queue w2)" .
      with tr \<open>stream_validate f = Inr ft\<close> m Inr c show ?thesis
        by (auto simp: stream_try_def)
    qed
  qed
  define w2 where "w2 = (case td of None \<Rightarrow> w1 | Some d \<Rightarrow> fs_rm d w1)"
  have w2: "\<not> stream_closed w2" "stream_queue w2 = stream_queue w1"
    using w1 by (auto simp: w2_def fs_rm_def record_call_def split: option.splits)
  have cb: "stream_callback env f ws = (r, w2\<lparr>stream_closed := True\<rparr>)"
    using tr w2 by (simp add: stream_callback_def w2_def close_def)
  have "snd (POST_stream env (Form f) w) = w2\<lparr>stream_closed := True\<rparr>"
    using cb
    by (cases r)
       (simp_all add: POST_stream_def createStreamResponse_def ws_def seq_def bnd_def
          sendEvent_def)
  with w1 w2 show ?thesis by (simp add: list_ex_iff list_all_iff)
qed

lemma success_ends_with_done:
  "last (stream_queue (snd (POST_stream env0 (Form form0) w0))) =
     Event Done AllDone (Some ''deck-1700'')
   \<and> length (filter is_terminal (stream_queue (snd (POST_stream env0 (Form form0) w0)))) = 1
   \<and> stream_closed (snd (POST_stream env0 (Form form0) w0))"
  by (simp add: model_eval sample_defs)

text \<open>
  C2. The streamed handler's \<^verbatim>\<open>finally\<close> block closes the stream before the
  thrown error reaches the \<^verbatim>\<open>catch\<close> of \<^verbatim>\<open>createStreamResponse\<close>, whose
  \<^verbatim>\<open>sendEvent\<close> then meets a closed controller. When the converter exits with
  code 1, the client receives four progress events and the end of the stream,
  and no \<open>error\<close> (or \<open>done\<close>) event; when no file is sent, it receives no event at
  all.
\<close>

theorem failure_closes_stream_without_terminal_event:
  "stream_queue (snd (POST_stream env_exit1 (Form form0) w0)) =
     [Event Info Validated None, Event Info (TempDirCreated ''ppt-upload-Ab3x9Q'') None,
      Event Info FileSaved None, Event Processing Converting None]
   \<and> \<not> list_ex is_terminal (stream_queue (snd (POST_stream env_exit1 (Form form0) w0)))
   \<and> stream_closed (snd (POST_stream env_exit1 (Form form0) w0))
   \<and> stream_queue (snd (POST_stream env0 (Form (form0\<lparr>form_file := None\<rparr>)) w0)) = []
   \<and> stream_closed (snd (POST_stream env0 (Form (form0\<lparr>form_file := None\<rparr>)) w0))"
  by (simp add: model_eval sample_defs)

text \<open>
  C5. With a log line before the JSON line on the converter's stdout and exit
  code 0, \<^verbatim>\<open>runPythonConverter\<close> (streamed pipeline) returns the parsed result,
  while the AI-assisted pipeline, which parses the whole trimmed stdout, fails
  with the \<^verbatim>\<open>SyntaxError\<close> of \<^verbatim>\<open>JSON.parse\<close> and answers HTTP 500; the error
  carries neither the raw stdout and stderr as a diagnostic nor a parsed result.
\<close>

theorem log_line_breaks_process_parse:
  "settle_converter env_logs (spawn_res env_logs ''./convert.py'' [''in'', ''out''])
     = Inr (Conv sample_conv)
   \<and> fst (POST_process env_logs (Form form0) w0) =
       respond 500 (ErrorDetails ''Processing failed''
         (SyntaxError logged_stdout))"
  by (simp add: model_eval sample_defs)

text \<open>
  C6. In the direct pipeline the result of the preview-row insert is not
  looked at: when that insert fails, the handler still answers HTTP 200 with
  \<open>success: true\<close>, and no preview row exists.
\<close>

theorem preview_insert_failure_is_ignored:
  "fst (POST_direct env_preview_insert_fails (Form form0) w0) =
     respond 200 (DirectSuccess
       (assign_id env0 (direct_row form0 file0 ''deck'' ''pptx''
          ''ppt-files/1700/original/deck.pptx'' 1))
       ''https://cdn.example/1700-deck.pptx'')
   \<and> list_ex is_insert_preview (calls (snd (POST_direct env_preview_insert_fails (Form form0) w0)))
   \<and> ppt_previews (snd (POST_direct env_preview_insert_fails (Form form0) w0)) = []"
  by (simp add: model_eval sample_defs)

section \<open>What each handler issues\<close>

lemma emits_bnd_result:
  assumes m: "emits Q m" and res: "\<And>w x. fst (m w) = Inr x \<Longrightarrow> R x"
    and f: "\<And>x. R x \<Longrightarrow> emits Q (f x)"
  shows "emits Q (bnd m f)"
  unfolding emits_def traces_def
proof
  fix w
  obtain a where a: "calls (snd (m w)) = calls w @ a" "list_all Q a"
    using m unfolding emits_def traces_def by blast
  show "\<exists>ext. calls (snd (bnd m f w)) = calls w @ ext \<and> list_all Q ext"
  proof (cases "m w")
    case (Pair r w')
    show ?thesis
    proof (cases r)
      case (Inl e)
      with Pair a show ?thesis by (auto simp: bnd_def)
    next
      case (Inr x)
      with Pair have "R x" using res [of w x] by simp
      then obtain b where b: "calls (snd (f x w')) = calls w' @ b" "list_all Q b"
        using f unfolding emits_def traces_def by blast
      with Pair Inr a show ?thesis by (auto simp: bnd_def)
    qed
  qed
qed


lemma process_key_pages:
  "process_key env fl (page_key (db_new_id env) (Suc i) ''webp'')"
  "process_key env fl (page_thumb_key (db_new_id env) (Suc i) ''webp'')"
  "process_key env fl (original_key (db_new_id env) (fl_name fl))"
  "process_key env fl (named_key (db_new_id env) ''thumbnail.webp'')"
  unfolding process_key_def by (auto intro: exI [of _ "Suc i"])

lemma stream_key_pages:
  "stream_key env fl (named_key (uuid env) (path_basename env p))"
  "stream_key env fl (original_key (uuid env) (fl_name fl))"
  unfolding stream_key_def by auto


lemma emits_process_pages_keys:
  "emits (process_call env fl d) (process_pages env (db_new_id env) thumbs i ps acc)"
  by (induction ps arbitrary: i acc)
     (auto simp: Let_def process_key_pages intro!: emits_intros split: option.splits)

lemma emits_upload_page_keys:
  "emits (stream_call env fl d) (upload_page env (uuid env) i p t)"
  by (auto simp: upload_page_def Let_def stream_key_pages intro!: emits_intros)

lemma emits_upload_and_record_keys:
  "emits (stream_call env fl d) (upload_and_record env (uuid env) i pts)"
proof (induction pts arbitrary: i)
  case Nil
  show ?case by (simp add: emits_def traces_def)
next
  case (Cons pt pts)
  have b: "emits (stream_call env fl d)
             (both (upload_page env (uuid env) i (fst pt) (snd pt))
                   (upload_and_record env (uuid env) (Suc i) pts))"
    using Cons by (intro emits_both emits_upload_page_keys)
  show ?case
    unfolding emits_def traces_def
  proof
    fix w
    obtain ext where
      "calls (snd (both (upload_page env (uuid env) i (fst pt) (snd pt))
                        (upload_and_record env (uuid env) (Suc i) pts) w)) = calls w @ ext"
      "list_all (stream_call env fl d) ext"
      using b unfolding emits_def traces_def by blast
    then show "\<exists>ext. calls (snd (upload_and_record env (uuid env) i (pt # pts) w)) = calls w @ ext
                 \<and> list_all (stream_call env fl d) ext"
      by (auto split: prod.splits sum.splits)
  qed
qed

lemma upload_and_record_length:
  "fst (upload_and_record env pid i pts w) = Inr rows \<Longrightarrow> length rows = length pts"
proof (induction pts arbitrary: i w rows)
  case Nil
  then show ?case by simp
next
  case (Cons pt pts)
  obtain r1 w1 where 1: "upload_page env pid i (fst pt) (snd pt) w = (r1, w1)"
    by (cases "upload_page env pid i (fst pt) (snd pt) w")
  obtain r2 w2 where 2: "upload_and_record env pid (Suc i) pts w1 = (r2, w2)"
    by (cases "upload_and_record env pid (Suc i) pts w1")
  from Cons.prems 1 2 obtain x xs where "r1 = Inr x" "r2 = Inr xs" "rows = x # xs"
    by (auto simp: both_def split: sum.splits)
  with Cons.IH [of "Suc i" w1 xs] 2 show ?case by simp
qed


lemma stream_pages_lengths:
  "stream_pages env fl d = Some (ps, ts) \<Longrightarrow> length ps = length ts"
  by (cases "stream_conversion env fl d")
     (auto simp: stream_pages_def split: sum.splits conv_json.splits option.splits if_splits
        elim!: checked_conversion.elims)

lemma emits_stream_persist:
  "stream_pages env fl d = Some (ps, ts) \<Longrightarrow> length rows = length ps \<Longrightarrow>
   emits (stream_call env fl d) (stream_persist env f fl title slug rows)"
  by (auto simp: stream_persist_def stream_row_def stream_pages_lengths
      intro!: emits_intros split: option.splits)

lemma emits_stream_store:
  assumes sp: "stream_pages env fl d = Some (ps, ts)"
  shows "emits (stream_call env fl d) (stream_store env f fl title ps ts)"
proof -
  have len: "length ps = length ts" using sp by (rule stream_pages_lengths)
  have res: "\<And>w x. fst (upload_and_record env (uuid env) 0 (zip ps ts) w) = Inr x
               \<Longrightarrow> length x = length ps"
    using upload_and_record_length len by fastforce
  show ?thesis
    unfolding stream_store_def Let_def
    by (intro emits_seq emits_sendEvent emits_issue
          emits_bnd_result [where R = "\<lambda>x. length x = length ps",
            OF emits_upload_and_record_keys res]
          emits_stream_persist [OF sp])
       (simp_all add: stream_key_pages)
qed

lemma runPythonConverter_result:
  "fst (runPythonConverter env i out w) = settle_converter env (spawn_res env ''./convert.py'' [i, out])"
  by (simp add: runPythonConverter_def)

lemma runPythonScript_result:
  "fst (runPythonScript env s args w) = settle_script s (spawn_res env s args)"
  by (simp add: runPythonScript_def)

lemma emits_stream_convert:
  "emits (stream_call env fl d) (stream_convert env f fl title d)"
proof -
  have k: "\<And>x. stream_conversion env fl d = Inr x \<Longrightarrow>
             emits (stream_call env fl d)
               (case checked_conversion x of
                  None \<Rightarrow> throw BadConversion
                | Some pt \<Rightarrow>
                    seq (sendEvent (Event Info (Converted (length (fst pt))) None))
                      (stream_store env f fl title (fst pt) (snd pt)))"
    by (auto simp: stream_pages_def split: option.splits
        intro!: emits_throw emits_seq emits_sendEvent emits_stream_store)
  have c: "\<And>i out. emits (stream_call env fl d) (runPythonConverter env i out)"
    by (intro emits_converter) simp
  have res: "\<And>w x. fst (runPythonConverter env (path_join env d (fl_name fl))
                         (path_join env d ''output'') w) = Inr x
               \<Longrightarrow> stream_conversion env fl d = Inr x"
    by (simp add: runPythonConverter_result stream_conversion_def)
  show ?thesis
    unfolding stream_convert_def Let_def
    by (intro emits_seq emits_sendEvent emits_issue
          emits_bnd_result [where R = "\<lambda>x. stream_conversion env fl d = Inr x", OF c res] k)
       simp_all
qed

lemma emits_process_finalize:
  "emits (process_call env fl d)
     (process_finalize env d (db_new_id env) (original_key (db_new_id env) (fl_name fl))
        (named_key (db_new_id env) ''thumbnail.webp'') rows m)"
  unfolding process_finalize_def
  by (intro emits_bnd emits_supabase emits_rm) simp_all

lemma emits_process_assets:
  "emits (process_call env fl d) (process_assets env fl d p ps thumbs m)"
  unfolding process_assets_def Let_def
  by (auto simp: process_key_pages split: option.splits
      intro!: emits_bnd emits_seq emits_readFile emits_issue emits_throw emits_supabase
        emits_process_pages_keys emits_process_finalize)

lemma emits_process_persist:
  "process_conversion env fl d = Inr (Some (Conv cr)) \<Longrightarrow>
   emits (process_call env fl d) (process_persist env fl d (pageCount_of cr) p ps thumbs m)"
  unfolding process_persist_def
  by (auto simp: process_row_def split: option.splits
      intro!: emits_bnd emits_supabase emits_throw emits_process_assets)

lemma emits_process_classify:
  "process_conversion env fl d = Inr (Some (Conv cr)) \<Longrightarrow>
   emits (process_call env fl d) (process_classify env fl d (pageCount_of cr) p ps thumbs)"
  unfolding process_classify_def
  by (auto split: meta_json.splits
      intro!: emits_bnd emits_script emits_ai emits_throw emits_process_persist)

lemma emits_process_try:
  "emits (process_call env fl d) (process_try env fl d)"
proof -
  have k: "\<And>out. process_conversion env fl d = Inr (parse_conv env (trim out)) \<Longrightarrow>
             emits (process_call env fl d)
               (case parse_conv env (trim out) of
                  None \<Rightarrow> throw (SyntaxError (trim out))
                | Some ConvNull \<Rightarrow> throw TypeError
                | Some (Conv previewData) \<Rightarrow>
                    if pageCount_of previewData < 10 then
                      (\<lambda>w. (Inr (respond 200
                                (Skipped (''File skipped: Page count ('' @
                                            show_int (pageCount_of previewData) @
                                            '') is less than 10.'')
                                         (fl_name fl))),
                             fs_rm d w))
                    else
                      (case previews previewData of
                         None \<Rightarrow> throw NoPreviewPaths
                       | Some [] \<Rightarrow> throw NoPreviewPaths
                       | Some (firstPreviewPath # others) \<Rightarrow>
                           process_classify env fl d (pageCount_of previewData)
                             firstPreviewPath (firstPreviewPath # others)
                             (thumbnails previewData)))"
    by (auto split: option.splits conv_json.splits list.splits
        intro!: emits_throw emits_rm emits_process_classify)
  have res: "\<And>w out. fst (runPythonScript env ''convert.py''
                 [path_join env d (fl_name fl), path_join env d ''previews''] w) = Inr out
               \<Longrightarrow> process_conversion env fl d = Inr (parse_conv env (trim out))"
    by (simp add: runPythonScript_result process_conversion_def)
  have c: "\<And>s args. emits (process_call env fl d) (runPythonScript env s args)"
    by (intro emits_script) simp
  show ?thesis
    unfolding process_try_def Let_def
    by (auto intro!: emits_throw emits_seq emits_issue
          emits_bnd_result [where R = "\<lambda>out. process_conversion env fl d = Inr (parse_conv env (trim out))",
            OF c res] k)
qed

section \<open>Order of the calls\<close>













lemma harmless_simps [simp]:
  "harmless asset (Spawn s a)" "harmless asset (Fetch x y)" "harmless asset (WriteFile p wb)"
  "harmless asset (Mkdir p)" "harmless asset (Rm p)" "harmless asset (Mkdtemp p)"
  "harmless asset (InsertFile r)" "harmless asset (InsertPreview pr)"
  "harmless asset (InsertPreviews prs)" "harmless asset (Put k b t) = (\<not> asset k)"
  "\<not> harmless asset (UpdateFile i k t)"
  by (simp_all add: harmless_def)





















section \<open>From the handler bodies to the handlers\<close>

lemma traces_conj: "traces P m \<Longrightarrow> traces Q m \<Longrightarrow> traces (\<lambda>r e. P r e \<and> Q r e) m"
  unfolding traces_def by (metis same_append_eq)

lemma new_calls_append: "calls w' = calls w @ ext \<Longrightarrow> new_calls w w' = ext"
  by (simp add: new_calls_def)

lemma POST_process_cases:
  assumes P: "traces P (process_try env fl d)"
    and d: "d = workspace_path env ''ppt-process-''" and fl: "form_file f = Some fl"
  obtains
    (too_large) "snd (POST_process env (Form f) w) = w"
      "http_status (fst (POST_process env (Form f) w)) = 413"
  | (no_workspace) "rejects env (calls w) (Mkdtemp d) \<noteq> None"
      "calls (snd (POST_process env (Form f) w)) = calls w @ [Mkdtemp d]"
      "http_status (fst (POST_process env (Form f) w)) = 500"
  | (staged) r ext where "rejects env (calls w) (Mkdtemp d) = None"
      "calls (snd (POST_process env (Form f) w)) = calls w @ Mkdtemp d # ext @ [Rm d]"
      "P r ext"
      "fst (POST_process env (Form f) w) =
         (case r of Inl e \<Rightarrow> respond 500 (ErrorDetails ''Processing failed'' e) | Inr resp \<Rightarrow> resp)"
      "d \<notin> set (dirs (snd (POST_process env (Form f) w)))"
proof (cases "fl_size fl > maxSize")
  case True
  then have "snd (POST_process env (Form f) w) = w"
    "http_status (fst (POST_process env (Form f) w)) = 413"
    using fl by (simp_all add: POST_process_def respond_def)
  then show ?thesis by (rule too_large)
next
  case small: False
  show ?thesis
  proof (cases "rejects env (calls w) (Mkdtemp d)")
    case (Some m)
    then have "calls (snd (POST_process env (Form f) w)) = calls w @ [Mkdtemp d]"
      "http_status (fst (POST_process env (Form f) w)) = 500"
      using fl small d
      by (simp_all add: POST_process_def fs_mkdtemp_def bnd_def issue_def record_call_def
          respond_def)
    with Some show ?thesis by (intro no_workspace) simp_all
  next
    case None
    define w1 where "w1 = effect env (Mkdtemp d) (record_call (Mkdtemp d) w)"
    obtain r w2 where run: "process_try env fl d w1 = (r, w2)"
      by (cases "process_try env fl d w1")
    obtain ext where ext: "calls w2 = calls w1 @ ext" "P r ext"
      using tracesD [OF P, of w1] run by auto
    have post: "POST_process env (Form f) w =
        ((case r of Inl e \<Rightarrow> respond 500 (ErrorDetails ''Processing failed'' e) | Inr resp \<Rightarrow> resp),
         fs_rm d w2)"
      using fl small d None run
      by (simp add: POST_process_def fs_mkdtemp_def bnd_def issue_def ret_def w1_def
          split: sum.splits)
    have c: "calls (snd (POST_process env (Form f) w)) = calls w @ Mkdtemp d # ext @ [Rm d]"
      using post ext by (simp add: fs_rm_def record_call_def w1_def)
    have gone: "d \<notin> set (dirs (snd (POST_process env (Form f) w)))"
      using post by (simp add: fs_rm_def)
    have resp: "fst (POST_process env (Form f) w) =
         (case r of Inl e \<Rightarrow> respond 500 (ErrorDetails ''Processing failed'' e) | Inr resp \<Rightarrow> resp)"
      using post by simp
    show ?thesis by (rule staged [OF None c ext(2) resp gone])
  qed
qed

lemma stream_validate_file:
  "stream_validate f = Inr ft \<Longrightarrow> form_file f = Some (fst ft)"
  by (auto simp: stream_validate_def split: option.splits if_splits)

lemma after_callback:
  "calls (snd (seq (sendEvent ev) close w)) = calls w \<and>
   dirs (snd (seq (sendEvent ev) close w)) = dirs w"
  by (simp add: seq_def bnd_def sendEvent_def close_def)

lemma POST_stream_cases:
  assumes P: "\<And>title. traces P (stream_convert env f fl title d)"
    and d: "d = workspace_path env ''ppt-upload-''" and fl: "form_file f = Some fl"
  obtains
    (invalid) "calls (snd (POST_stream env (Form f) w)) = calls w"
      "dirs (snd (POST_stream env (Form f) w)) = dirs w"
  | (no_workspace) "rejects env (calls w) (Mkdtemp d) \<noteq> None"
      "calls (snd (POST_stream env (Form f) w)) = calls w @ [Mkdtemp d]"
  | (staged) r ext where "rejects env (calls w) (Mkdtemp d) = None"
      "calls (snd (POST_stream env (Form f) w)) = calls w @ Mkdtemp d # ext @ [Rm d]"
      "P r ext"
      "d \<notin> set (dirs (snd (POST_stream env (Form f) w)))"
proof (cases "stream_validate f")
  case (Inl e)
  then have "calls (snd (POST_stream env (Form f) w)) = calls w
           \<and> dirs (snd (POST_stream env (Form f) w)) = dirs w"
    by (simp add: POST_stream_def createStreamResponse_def stream_callback_def stream_try_def
        close_def seq_def bnd_def sendEvent_def)
  then show ?thesis by (intro invalid) simp_all
next
  case (Inr ft)
  then have ft: "fst ft = fl" using stream_validate_file fl by fastforce
  define ws where "ws = w\<lparr>stream_closed := False, stream_queue := [Event Info Validated None]\<rparr>"
  show ?thesis
  proof (cases "rejects env (calls w) (Mkdtemp d)")
    case (Some m)
    then have "calls (snd (POST_stream env (Form f) w)) = calls w @ [Mkdtemp d]"
      using Inr d
      by (simp add: POST_stream_def createStreamResponse_def stream_callback_def stream_try_def
          close_def seq_def bnd_def sendEvent_def fs_mkdtemp_def issue_def record_call_def)
    with Some show ?thesis by (intro no_workspace) simp_all
  next
    case None
    define w1 where "w1 = effect env (Mkdtemp d) (record_call (Mkdtemp d) ws)"
    obtain r w2 where run: "stream_convert env f fl (snd ft) d w1 = (r, w2)"
      by (cases "stream_convert env f fl (snd ft) d w1")
    obtain ext where ext: "calls w2 = calls w1 @ ext" "P r ext"
      using tracesD [OF P, of "snd ft" w1] run by auto
    have tr: "stream_try env f (w\<lparr>stream_queue := [], stream_closed := False\<rparr>) = (r, Some d, w2)"
      using Inr ft d None run
      by (simp add: stream_try_def seq_def bnd_def sendEvent_def fs_mkdtemp_def issue_def
          record_call_def ret_def w1_def ws_def)
    obtain c w3 where cl: "close (fs_rm d w2) = (c, w3)"
      by (cases "close (fs_rm d w2)")
    then have w3: "calls w3 = calls (fs_rm d w2)" "dirs w3 = dirs (fs_rm d w2)"
      by (auto simp: close_def split: if_splits)
    have fin: "calls (snd (POST_stream env (Form f) w)) = calls w3
             \<and> dirs (snd (POST_stream env (Form f) w)) = dirs w3"
      using tr cl after_callback
      by (auto simp: POST_stream_def createStreamResponse_def stream_callback_def
          split: sum.splits)
    have c: "calls (snd (POST_stream env (Form f) w)) = calls w @ Mkdtemp d # ext @ [Rm d]"
      using fin w3 ext by (simp add: fs_rm_def record_call_def w1_def ws_def)
    have gone: "d \<notin> set (dirs (snd (POST_stream env (Form f) w)))"
      using fin w3 by (simp add: fs_rm_def)
    show ?thesis by (rule staged [OF None c ext(2) gone])
  qed
qed


lemma mismatch_simps:
  "previews mismatch_conv = Some [''/out/page-1.jpg'']"
  "thumbnails mismatch_conv = Some [''/out/page-1-thumb.jpg'', ''/out/page-2-thumb.jpg'']"
  "cr_page_count mismatch_conv = Some 12"
  "trim mismatch_stdout = mismatch_stdout"
  "mismatch_stdout \<noteq> []"
  by (simp_all add: mismatch_conv_def mismatch_stdout_def trim_def is_ws_def)

lemma base36_1700: "slice_last 6 (to_base36 1700) = ''1b8''"
  by (simp add: to_base36.simps slice_last_def)

lemma process_mismatch_run:
  "new_calls w0 (snd (POST_process env_mismatch (Form form0) w0)) =
     [Mkdtemp ''/tmp/ppt-process-Ab3x9Q'',
      WriteFile ''/tmp/ppt-process-Ab3x9Q/deck.pptx'' ''bytes'',
      Mkdir ''/tmp/ppt-process-Ab3x9Q/previews'',
      Spawn ''convert.py'' [''/tmp/ppt-process-Ab3x9Q/deck.pptx'', ''/tmp/ppt-process-Ab3x9Q/previews''],
      Spawn ''extract_text.py'' [''/tmp/ppt-process-Ab3x9Q/deck.pptx''],
      Fetch ''deck.pptx'' ''Quarterly results'',
      InsertFile (process_row env0 file0 sample_meta 12),
      Put ''ppt-files/42/original/deck.pptx'' (Body ''/tmp/ppt-process-Ab3x9Q/deck.pptx'')
        ''application/vnd.ms-powerpoint'',
      Put ''ppt-files/42/previews/thumbnail.webp'' (Body ''/out/page-1.jpg'') ''image/webp'',
      Put ''ppt-files/42/previews/page-1.webp'' (Body ''/out/page-1.jpg'') ''image/webp'',
      Put ''ppt-files/42/previews/page-1-thumb.webp'' (Body ''/out/page-1-thumb.jpg'') ''image/webp'',
      InsertPreviews [\<lparr>ppt_id = ''42'', page_number = 1,
                       preview_url = ''ppt-files/42/previews/page-1.webp'',
                       thumbnail_url = ''ppt-files/42/previews/page-1-thumb.webp''\<rparr>],
      UpdateFile ''42'' ''ppt-files/42/original/deck.pptx'' ''ppt-files/42/previews/thumbnail.webp'',
      Rm ''/tmp/ppt-process-Ab3x9Q'', Rm ''/tmp/ppt-process-Ab3x9Q'']"
  by (simp add: model_eval sample_defs env_mismatch_def mismatch_simps base36_1700)


lemma stream_sample_run:
  "new_calls w0 (snd (POST_stream env0 (Form form0) w0)) =
     [Mkdtemp ''/tmp/ppt-upload-Ab3x9Q'', Mkdir ''/tmp/ppt-upload-Ab3x9Q/output'',
      WriteFile ''/tmp/ppt-upload-Ab3x9Q/deck.pptx'' ''bytes'',
      Spawn ''./convert.py'' [''/tmp/ppt-upload-Ab3x9Q/deck.pptx'', ''/tmp/ppt-upload-Ab3x9Q/output''],
      Put ''ppt-files/u1/original/deck.pptx'' (Body ''bytes'') ''application/vnd.ms-powerpoint'',
      Put ''ppt-files/u1/previews/page-1.jpg'' (Body ''/out/page-1.jpg'') ''image/jpeg'',
      Put ''ppt-files/u1/previews/page-1-thumb.jpg'' (Body ''/out/page-1-thumb.jpg'') ''image/jpeg'',
      Put ''ppt-files/u1/previews/page-2.jpg'' (Body ''/out/page-2.jpg'') ''image/jpeg'',
      Put ''ppt-files/u1/previews/page-2-thumb.jpg'' (Body ''/out/page-2-thumb.jpg'') ''image/jpeg'',
      InsertFile (stream_row env0 form0 file0 ''deck'' ''deck-1700''
        [\<lparr>ppt_id = ''u1'', page_number = 1,
           preview_url = ''ppt-files/u1/previews/page-1.jpg'',
           thumbnail_url = ''ppt-files/u1/previews/page-1-thumb.jpg''\<rparr>,
         \<lparr>ppt_id = ''u1'', page_number = 2,
           preview_url = ''ppt-files/u1/previews/page-2.jpg'',
           thumbnail_url = ''ppt-files/u1/previews/page-2-thumb.jpg''\<rparr>]),
      InsertPreviews
        [\<lparr>ppt_id = ''u1'', page_number = 1,
           preview_url = ''ppt-files/u1/previews/page-1.jpg'',
           thumbnail_url = ''ppt-files/u1/previews/page-1-thumb.jpg''\<rparr>,
         \<lparr>ppt_id = ''u1'', page_number = 2,
           preview_url = ''ppt-files/u1/previews/page-2.jpg'',
           thumbnail_url = ''ppt-files/u1/previews/page-2-thumb.jpg''\<rparr>],
      Rm ''/tmp/ppt-upload-Ab3x9Q'']"
  by (simp add: model_eval sample_defs)



lemma new_calls_same [simp]: "new_calls w w = []"
  by (simp add: new_calls_def)

lemma new_calls_same_log: "calls w' = calls w \<Longrightarrow> new_calls w w' = []"
  by (simp add: new_calls_def)




section \<open>The workspace\<close>



section \<open>The handlers' calls\<close>

lemma process_discipline:
  assumes fl: "form_file f = Some fl"
    and c: "c \<in> set (new_calls w (snd (POST_process env (Form f) w)))"
  shows "c = Mkdtemp (workspace_path env ''ppt-process-'') \<or>
         process_call env fl (workspace_path env ''ppt-process-'') c"
proof -
  define d0 where "d0 = workspace_path env ''ppt-process-''"
  have P: "traces (\<lambda>r. list_all (process_call env fl d0)) (process_try env fl d0)"
    using emits_process_try unfolding emits_def .
  from P d0_def fl show ?thesis
  proof (cases rule: POST_process_cases [where w = w])
    case too_large
    with c show ?thesis by simp
  next
    case no_workspace
    with c show ?thesis by (auto simp: new_calls_append d0_def)
  next
    case (staged r ext)
    with c show ?thesis by (auto simp: new_calls_append list_all_iff d0_def)
  qed
qed

lemma stream_discipline:
  assumes fl: "form_file f = Some fl"
    and c: "c \<in> set (new_calls w (snd (POST_stream env (Form f) w)))"
  shows "c = Mkdtemp (workspace_path env ''ppt-upload-'') \<or>
         c = Rm (workspace_path env ''ppt-upload-'') \<or>
         stream_call env fl (workspace_path env ''ppt-upload-'') c"
proof -
  define d0 where "d0 = workspace_path env ''ppt-upload-''"
  have P: "\<And>title. traces (\<lambda>r. list_all (stream_call env fl d0)) (stream_convert env f fl title d0)"
    using emits_stream_convert unfolding emits_def .
  from P d0_def fl show ?thesis
  proof (cases rule: POST_stream_cases [where w = w])
    case invalid
    with c show ?thesis by (simp add: new_calls_same_log)
  next
    case no_workspace
    with c show ?thesis by (auto simp: new_calls_append d0_def)
  next
    case (staged r ext)
    with c show ?thesis by (auto simp: new_calls_append list_all_iff d0_def)
  qed
qed









lemma process_mismatch_response:
  "fst (POST_process env_mismatch (Form form0) w0) =
     respond 200 (ProcessSuccess ''42'' ''ppt-files/42/original/deck.pptx''
       ''ppt-files/42/previews/thumbnail.webp'' [''ppt-files/42/previews/page-1.webp''] sample_meta)"
  by (simp add: model_eval sample_defs env_mismatch_def mismatch_simps base36_1700)

lemma process_mismatch_rows:
  "map page_count (ppt_files (snd (POST_process env_mismatch (Form form0) w0))) = [12]"
  "map row_id (ppt_files (snd (POST_process env_mismatch (Form form0) w0))) = [Some ''42'']"
  "length (ppt_previews (snd (POST_process env_mismatch (Form form0) w0))) = 1"
  by (simp_all add: model_eval sample_defs env_mismatch_def mismatch_simps base36_1700)


lemma process_mismatch_conversion:
  "process_conversion env_mismatch file0 ''/tmp/ppt-process-Ab3x9Q'' = Inr (Some (Conv mismatch_conv))"
  by (simp add: process_conversion_def env_mismatch_def mismatch_simps)


lemma stream_sample_insert:
  "InsertFile (stream_row env0 form0 file0 ''deck'' ''deck-1700'' sample_rows)
     \<in> set (new_calls w0 (snd (POST_stream env0 (Form form0) w0)))"
  by (simp add: stream_sample_run sample_rows_def)

lemma process_mismatch_insert:
  "InsertFile (process_row env0 file0 sample_meta 12)
     \<in> set (new_calls w0 (snd (POST_process env_mismatch (Form form0) w0)))"
  by (simp add: process_mismatch_run)

section \<open>Storage keys written\<close>




section \<open>Page count\<close>

text \<open>
  C8, as the code has it. In the streamed pipeline a file row is inserted
  only if the converter's result passed the handler's check, so its two
  sequences have the same length, and the row's page count is the length of
  the preview sequence. In the AI-assisted pipeline a file row is inserted
  only if the converter's stdout parsed to an object, and the row's page count
  is that object's \<^verbatim>\<open>page_count\<close> field (0 when absent).
\<close>

theorem page_count_by_pipeline:
  assumes "form_file f = Some fl"
  shows "(\<forall>row. InsertFile row \<in> set (new_calls w (snd (POST_stream env (Form f) w))) \<longrightarrow>
            (\<exists>ps ts. stream_pages env fl (workspace_path env ''ppt-upload-'') = Some (ps, ts) \<and>
                     length ps = length ts \<and> page_count row = int (length ps)))
       \<and> (\<forall>row. InsertFile row \<in> set (new_calls w (snd (POST_process env (Form f) w))) \<longrightarrow>
            (\<exists>cr. process_conversion env fl (workspace_path env ''ppt-process-'') = Inr (Some (Conv cr)) \<and>
                  page_count row = pageCount_of cr))"
proof (intro conjI allI impI)
  fix row
  assume "InsertFile row \<in> set (new_calls w (snd (POST_stream env (Form f) w)))"
  from stream_discipline [OF assms this]
  show "\<exists>ps ts. stream_pages env fl (workspace_path env ''ppt-upload-'') = Some (ps, ts) \<and>
                length ps = length ts \<and> page_count row = int (length ps)"
    by (cases "stream_pages env fl (workspace_path env ''ppt-upload-'')") auto
next
  fix row
  assume "InsertFile row \<in> set (new_calls w (snd (POST_process env (Form f) w)))"
  from process_discipline [OF assms this]
  show "\<exists>cr. process_conversion env fl (workspace_path env ''ppt-process-'') = Inr (Some (Conv cr)) \<and>
             page_count row = pageCount_of cr"
    by (auto split: sum.splits option.splits conv_json.splits)
qed

theorem page_count_by_pipeline_witness:
  "(\<exists>ps ts. stream_pages env0 file0 (workspace_path env0 ''ppt-upload-'') = Some (ps, ts) \<and>
            length ps = length ts \<and>
            page_count (stream_row env0 form0 file0 ''deck'' ''deck-1700'' sample_rows)
              = int (length ps))
   \<and> (\<exists>cr. process_conversion env_mismatch file0 (workspace_path env_mismatch ''ppt-process-'')
              = Inr (Some (Conv cr)) \<and>
            page_count (process_row env0 file0 sample_meta 12) = pageCount_of cr)"
  by (intro conjI
        page_count_by_pipeline [OF form0_simps(1), of w0 env0, THEN conjunct1, rule_format,
          OF stream_sample_insert]
        page_count_by_pipeline [OF form0_simps(1), of w0 env_mismatch, THEN conjunct2, rule_format,
          OF process_mismatch_insert])

text \<open>
  C8 as stated fails in the AI-assisted pipeline: with a converter result of
  one preview, two thumbnails and \<^verbatim>\<open>page_count\<close> 12, the request succeeds, the
  row's page count is 12, and one preview row is written.
\<close>

theorem page_count_disagrees_counterexample:
  "process_conversion env_mismatch file0 ''/tmp/ppt-process-Ab3x9Q'' = Inr (Some (Conv mismatch_conv))
   \<and> previews mismatch_conv = Some [''/out/page-1.jpg'']
   \<and> thumbnails mismatch_conv = Some [''/out/page-1-thumb.jpg'', ''/out/page-2-thumb.jpg'']
   \<and> http_status (fst (POST_process env_mismatch (Form form0) w0)) = 200
   \<and> map page_count (ppt_files (snd (POST_process env_mismatch (Form form0) w0))) = [12]
   \<and> length (ppt_previews (snd (POST_process env_mismatch (Form form0) w0))) = 1"
  by (simp add: process_mismatch_conversion mismatch_simps process_mismatch_response
      process_mismatch_rows respond_def)

section \<open>Order of the row insert and the uploads\<close>




end
